theory Spec2Isabelle
  imports Complex_Main "HOL-Library.Word"
begin

unbundle bit_operations_syntax

section \<open>Conventions of the embedding\<close>

text \<open>
  The development embeds \<^verbatim>\<open>src/HDRImageIO.cpp\<close> of HDRView: the load and save
  dispatchers of \<^verbatim>\<open>HDRImage\<close>, the raw developer and the bit unpackers.

  \<^item> A C++ \<^verbatim>\<open>float\<close> is a \<^typ>\<open>real\<close>. Where a float decides an integer (a byte written
    by \<^verbatim>\<open>save\<close>, an index into the colour table of \<^verbatim>\<open>copyPixelsFromArray\<close>), every
    arithmetic step that leads to it is followed by the rounding to binary32, a parameter
    of the model (\<open>ext_round\<close>, \<open>save_round\<close>), so that what is proved of those integers
    holds of the rounding of the machine; the examples take for it the function
    \<open>binary32\<close>, the rounding to nearest of IEEE 754. Elsewhere (the raw developer, the
    scaling of raw samples) the arithmetic is that of the reals and the results are the
    values the code approximates. Integers below \<open>2 ^ 24\<close> (every unpacked sample) are
    exact in binary32.
  \<^item> Binary32 has infinities and NaN, the reals have not. The pixels and samples of the
    model are finite and the rounding is a function from the reals to the reals. The
    infinite \<^verbatim>\<open>invScale\<close> of \<^verbatim>\<open>develop\<close> has a value of its own; where a coefficient of a
    pixel or of a matrix would be infinite or not a number (a white balance with a zero,
    a colour matrix without inverse, a gamma of zero) the model stops with \<open>Undefined\<close>.
  \<^item> \<^verbatim>\<open>unsigned char\<close>, \<^verbatim>\<open>unsigned short\<close> and \<^verbatim>\<open>unsigned int\<close> are words of 8, 16
    and 32 bits.
  \<^item> Widths, heights and array indices are natural numbers: the products
    \<^verbatim>\<open>width * height\<close> are assumed to fit an \<^verbatim>\<open>int\<close>.
  \<^item> A C++ exception derived from \<^verbatim>\<open>std::exception\<close> is the value \<open>Exception m\<close>, with
    \<open>m\<close> what \<^verbatim>\<open>what()\<close> returns; reading outside a buffer, which C++ leaves undefined,
    is the value \<open>Undefined\<close>, which no handler catches. A result \<open>Undefined\<close> marks an
    input on which the model has no answer; it asserts nothing of what the code does.
  \<^item> \<^verbatim>\<open>parallel_for\<close> runs its body for every index of the range; the bodies of this
    file write disjoint elements, so the loop is modelled in ascending order.
\<close>

type_synonym byte = "8 word"
type_synonym ushort = "16 word"
type_synonym uint = "32 word"

datatype exn =
    Exception string
  | Undefined

text \<open>A computation that may throw: \<open>Inl\<close> carries the exception.\<close>

type_synonym 'a result = "exn + 'a"

fun bind_result :: "'a result \<Rightarrow> ('a \<Rightarrow> 'b result) \<Rightarrow> 'b result" where
  "bind_result (Inl e) f = Inl e"
| "bind_result (Inr x) f = f x"

text \<open>A counted loop whose body may throw: the first exception ends the loop.\<close>

fun for_loop :: "nat list \<Rightarrow> (nat \<Rightarrow> 's \<Rightarrow> 's result) \<Rightarrow> 's \<Rightarrow> 's result" where
  "for_loop [] body s = Inr s"
| "for_loop (i # is) body s = bind_result (body i s) (for_loop is body)"

definition parallel_for :: "nat \<Rightarrow> nat \<Rightarrow> (nat \<Rightarrow> 's \<Rightarrow> 's result) \<Rightarrow> 's \<Rightarrow> 's result" where
  "parallel_for begin_i end_i body s = for_loop [begin_i..<end_i] body s"

section \<open>Bit unpacker\<close>

text \<open>\<^verbatim>\<open>data[i]\<close> on the packed buffer; an index outside the buffer is undefined.\<close>

definition read_byte :: "byte list \<Rightarrow> int \<Rightarrow> byte result" where
  "read_byte data i =
     (if 0 \<le> i \<and> i < int (length data) then Inr (data ! nat i) else Inl Undefined)"

text \<open>Loads a group of bytes, in the order given, into the local array \<^verbatim>\<open>buf\<close>.\<close>

fun read_bytes :: "byte list \<Rightarrow> int list \<Rightarrow> byte list result" where
  "read_bytes data [] = Inr []"
| "read_bytes data (i # is) =
     bind_result (read_byte data i) (\<lambda>b.
     bind_result (read_bytes data is) (\<lambda>bs. Inr (b # bs)))"

text \<open>\<^verbatim>\<open>image.resize(n)\<close> on a \<^verbatim>\<open>vector<float>\<close>: kept elements stay, new ones are zero.\<close>

definition vector_resize :: "nat \<Rightarrow> real list \<Rightarrow> real list" where
  "vector_resize n v = take n v @ replicate (n - length v) 0"

definition offsets12 :: "nat list list" where
  "offsets12 = [[0, 1], [1, 2]]"

definition bitShifts12 :: "nat list" where
  "bitShifts12 = [4, 0]"

text \<open>The body of the inner loop of \<^verbatim>\<open>decode12BitToFloat\<close> for the sample \<open>n = y * width + x\<close>.\<close>

definition decode12_sample :: "byte list \<Rightarrow> bool \<Rightarrow> nat \<Rightarrow> real result" where
  "decode12_sample data swapEndian n =
     (let n2 = n mod 2;
          addr3 = int ((n div 2) * 3);
          odd = addr3 mod 2;
          bit_shift = bitShifts12 ! n2;
          offset0 = offsets12 ! n2 ! 0;
          offset1 = offsets12 ! n2 ! 1
      in bind_result
           (if swapEndian then
              (if odd \<noteq> 0 then read_bytes data [addr3 - 1, addr3 + 2, addr3 + 1]
               else read_bytes data [addr3 + 1, addr3 + 0, addr3 + 3])
            else read_bytes data [addr3 + 0, addr3 + 1, addr3 + 2])
           (\<lambda>buf.
              let b0 = (ucast (buf ! offset0) :: uint) AND 0xff;
                  b1 = (ucast (buf ! offset1) :: uint) AND 0xff;
                  val = push_bit 8 b0 OR b1;
                  val' = 0xfff AND drop_bit bit_shift val
              in Inr (real (unat val'))))"

definition decode12BitToFloat ::
  "real list \<Rightarrow> byte list \<Rightarrow> nat \<Rightarrow> nat \<Rightarrow> bool \<Rightarrow> real list result" where
  "decode12BitToFloat image0 data width height swapEndian =
     parallel_for 0 height (\<lambda>y.
       for_loop [0..<width] (\<lambda>x img.
         bind_result (decode12_sample data swapEndian (y * width + x)) (\<lambda>v.
           Inr (img[y * width + x := v]))))
       (vector_resize (width * height) image0)"

definition offsets14 :: "nat list list" where
  "offsets14 = [[0, 0, 1], [1, 2, 3], [3, 4, 5], [5, 5, 6]]"

definition bitShifts14 :: "nat list" where
  "bitShifts14 = [2, 4, 6, 0]"

text \<open>The body of the inner loop of \<^verbatim>\<open>decode14BitToFloat\<close> for the sample \<open>n = y * width + x\<close>.\<close>

definition decode14_sample :: "byte list \<Rightarrow> bool \<Rightarrow> nat \<Rightarrow> real result" where
  "decode14_sample data swapEndian n =
     (let n4 = n mod 4;
          addr7 = int ((n div 4) * 7);
          odd = addr7 mod 2;
          offset0 = offsets14 ! n4 ! 0;
          offset1 = offsets14 ! n4 ! 1;
          offset2 = offsets14 ! n4 ! 2;
          bit_shift = bitShifts14 ! n4
      in bind_result
           (if swapEndian then
              (if odd \<noteq> 0 then
                 read_bytes data [addr7 - 1, addr7 + 2, addr7 + 1, addr7 + 4, addr7 + 3,
                   addr7 + 6, addr7 + 5]
               else
                 read_bytes data [addr7 + 1, addr7 + 0, addr7 + 3, addr7 + 2, addr7 + 5,
                   addr7 + 4, addr7 + 7])
            else
              read_bytes data [addr7, addr7 + 1, addr7 + 2, addr7 + 3, addr7 + 4, addr7 + 5,
                addr7 + 6])
           (\<lambda>buf.
              let b0 = (ucast (buf ! offset0) :: uint) AND 0xff;
                  b1 = (ucast (buf ! offset1) :: uint) AND 0xff;
                  b2 = (ucast (buf ! offset2) :: uint) AND 0xff;
                  val = push_bit 16 b0 OR push_bit 8 b1 OR b2;
                  val' = 0x3fff AND drop_bit bit_shift val
              in Inr (real (unat val'))))"

definition decode14BitToFloat ::
  "real list \<Rightarrow> byte list \<Rightarrow> nat \<Rightarrow> nat \<Rightarrow> bool \<Rightarrow> real list result" where
  "decode14BitToFloat image0 data width height swapEndian =
     parallel_for 0 height (\<lambda>y.
       for_loop [0..<width] (\<lambda>x img.
         bind_result (decode14_sample data swapEndian (y * width + x)) (\<lambda>v.
           Inr (img[y * width + x := v]))))
       (vector_resize (width * height) image0)"

text \<open>
  An \<^verbatim>\<open>unsigned short\<close> seen through its two bytes in memory. The byte order is the
  host's, which the C++ leaves to the platform: \<open>host_big_endian\<close> is a parameter.
\<close>

definition ushort_of_bytes :: "bool \<Rightarrow> byte \<Rightarrow> byte \<Rightarrow> ushort" where
  "ushort_of_bytes host_big_endian b0 b1 =
     (if host_big_endian then push_bit 8 (ucast b0) OR ucast b1
      else push_bit 8 (ucast b1) OR ucast b0)"

text \<open>\<^verbatim>\<open>endianSwap\<close> stores the high byte of \<open>val\<close> at the lower address of the result.\<close>

definition endianSwap :: "bool \<Rightarrow> ushort \<Rightarrow> ushort" where
  "endianSwap host_big_endian val =
     ushort_of_bytes host_big_endian (ucast (drop_bit 8 val)) (ucast val)"

text \<open>\<^verbatim>\<open>ptr[i]\<close> where \<^verbatim>\<open>ptr\<close> is the byte buffer reinterpreted as \<^verbatim>\<open>unsigned short *\<close>.\<close>

definition read_ushort :: "bool \<Rightarrow> byte list \<Rightarrow> nat \<Rightarrow> ushort result" where
  "read_ushort host_big_endian data i =
     bind_result (read_bytes data [int (2 * i), int (2 * i + 1)]) (\<lambda>bs.
       Inr (ushort_of_bytes host_big_endian (bs ! 0) (bs ! 1)))"

text \<open>The body of the inner loop of \<^verbatim>\<open>decode16BitToFloat\<close>.\<close>

definition decode16_sample :: "bool \<Rightarrow> byte list \<Rightarrow> bool \<Rightarrow> nat \<Rightarrow> real result" where
  "decode16_sample host_big_endian data swapEndian n =
     bind_result (read_ushort host_big_endian data n) (\<lambda>val.
       let val' = (if swapEndian then endianSwap host_big_endian val else val)
       in Inr (real (unat val')))"

definition decode16BitToFloat ::
  "bool \<Rightarrow> real list \<Rightarrow> byte list \<Rightarrow> nat \<Rightarrow> nat \<Rightarrow> bool \<Rightarrow> real list result" where
  "decode16BitToFloat host_big_endian image0 data width height swapEndian =
     parallel_for 0 height (\<lambda>y.
       for_loop [0..<width] (\<lambda>x img.
         bind_result (decode16_sample host_big_endian data swapEndian (y * width + x)) (\<lambda>v.
           Inr (img[y * width + x := v]))))
       (vector_resize (width * height) image0)"

text \<open>
  The synthetic packer of the round trip: every sample is laid out as its two bytes in
  host order. It is the inverse against which the unpacker is checked, not code of the
  program.
\<close>

definition bytes_of_ushort :: "bool \<Rightarrow> ushort \<Rightarrow> byte list" where
  "bytes_of_ushort host_big_endian v =
     (if host_big_endian then [ucast (drop_bit 8 v), ucast v]
      else [ucast v, ucast (drop_bit 8 v)])"

definition pack16 :: "bool \<Rightarrow> ushort list \<Rightarrow> byte list" where
  "pack16 host_big_endian vs = concat (map (bytes_of_ushort host_big_endian) vs)"

section \<open>Colours, images and matrices\<close>

text \<open>
  \<^verbatim>\<open>Color4\<close>, \<^verbatim>\<open>HDRImage\<close> (an Eigen array of \<^verbatim>\<open>Color4\<close> with \<^verbatim>\<open>width() = rows()\<close>) and
  Eigen's \<^verbatim>\<open>Matrix3f\<close> and \<^verbatim>\<open>Vector3f\<close> are declared outside this file. An image is its
  two extents and its coefficient access \<^verbatim>\<open>img(x, y)\<close>; only coefficients with
  \<open>x < width\<close> and \<open>y < height\<close> belong to the image.
\<close>

datatype Color4 = Color4 (cr: real) (cg: real) (cb: real) (ca: real)

record HDRImage =
  img_width :: nat
  img_height :: nat
  img_pix :: "nat \<Rightarrow> nat \<Rightarrow> Color4"

text \<open>\<^verbatim>\<open>img(x, y) = c\<close>.\<close>

definition set_pixel :: "HDRImage \<Rightarrow> nat \<Rightarrow> nat \<Rightarrow> Color4 \<Rightarrow> HDRImage" where
  "set_pixel img x y c =
     img\<lparr>img_pix := (\<lambda>x' y'. if x' = x \<and> y' = y then c else img_pix img x' y')\<rparr>"

text \<open>
  Modelled from the spec: \<^verbatim>\<open>resize(w, h)\<close> of the pixel container (section 6, an
  external collaborator) gives an image of the stated extents; the coefficients are
  whatever they were until written.
\<close>

definition resize :: "nat \<Rightarrow> nat \<Rightarrow> HDRImage \<Rightarrow> HDRImage" where
  "resize w h img = img\<lparr>img_width := w, img_height := h\<rparr>"

definition is_empty_image :: "HDRImage \<Rightarrow> bool" where
  "is_empty_image img \<longleftrightarrow> img_width img = 0 \<and> img_height img = 0"

datatype Vector3f = Vector3f (vx: real) (vy: real) (vz: real)

text \<open>A 3 by 3 matrix, written row by row as the comma initialiser of Eigen takes it.\<close>

datatype Matrix3f = Matrix3f real real real  real real real  real real real

fun mat_mul :: "Matrix3f \<Rightarrow> Matrix3f \<Rightarrow> Matrix3f" where
  "mat_mul (Matrix3f a11 a12 a13 a21 a22 a23 a31 a32 a33)
           (Matrix3f b11 b12 b13 b21 b22 b23 b31 b32 b33) =
     Matrix3f
       (a11 * b11 + a12 * b21 + a13 * b31) (a11 * b12 + a12 * b22 + a13 * b32)
       (a11 * b13 + a12 * b23 + a13 * b33)
       (a21 * b11 + a22 * b21 + a23 * b31) (a21 * b12 + a22 * b22 + a23 * b32)
       (a21 * b13 + a22 * b23 + a23 * b33)
       (a31 * b11 + a32 * b21 + a33 * b31) (a31 * b12 + a32 * b22 + a33 * b32)
       (a31 * b13 + a32 * b23 + a33 * b33)"

fun mat_vec :: "Matrix3f \<Rightarrow> Vector3f \<Rightarrow> Vector3f" where
  "mat_vec (Matrix3f a11 a12 a13 a21 a22 a23 a31 a32 a33) (Vector3f x y z) =
     Vector3f (a11 * x + a12 * y + a13 * z) (a21 * x + a22 * y + a23 * z)
       (a31 * x + a32 * y + a33 * z)"


fun determinant :: "Matrix3f \<Rightarrow> real" where
  "determinant (Matrix3f a b c d e f g h i) =
     a * (e * i - f * h) - b * (d * i - f * g) + c * (d * h - e * g)"

text \<open>
  Modelled from the spec: \<^verbatim>\<open>inverse()\<close> of Eigen is the matrix inverse (section 4.2,
  \<open>CameraToXYZ = inverse(ColorMatrix)\<close>); for a 3 by 3 matrix it is the matrix of
  cofactors, transposed, times the reciprocal of the determinant.
\<close>

fun mat_inverse :: "Matrix3f \<Rightarrow> Matrix3f" where
  "mat_inverse (Matrix3f a b c d e f g h i) =
     (let invdet = 1 / determinant (Matrix3f a b c d e f g h i) in
      Matrix3f
        ((e * i - f * h) * invdet) ((c * h - b * i) * invdet) ((b * f - c * e) * invdet)
        ((f * g - d * i) * invdet) ((a * i - c * g) * invdet) ((c * d - a * f) * invdet)
        ((d * h - e * g) * invdet) ((b * g - a * h) * invdet) ((a * e - b * d) * invdet))"

text \<open>\<^verbatim>\<open>v.asDiagonal()\<close>, \<^verbatim>\<open>cwiseQuotient\<close> and \<^verbatim>\<open>cwiseProduct\<close>.\<close>

fun asDiagonal :: "Vector3f \<Rightarrow> Matrix3f" where
  "asDiagonal (Vector3f x y z) = Matrix3f x 0 0  0 y 0  0 0 z"

fun cwiseQuotient :: "Vector3f \<Rightarrow> Vector3f \<Rightarrow> Vector3f" where
  "cwiseQuotient (Vector3f x y z) (Vector3f p q r) = Vector3f (x / p) (y / q) (z / r)"

fun cwiseProduct :: "Vector3f \<Rightarrow> Vector3f \<Rightarrow> Vector3f" where
  "cwiseProduct (Vector3f x y z) (Vector3f p q r) = Vector3f (x * p) (y * q) (z * r)"

text \<open>
  Modelled from the spec: \<^verbatim>\<open>clamp(a, l, h)\<close> of \<^verbatim>\<open>Common.h\<close> bounds \<open>a\<close> to the
  interval from \<open>l\<close> to \<open>h\<close> (section 4.3).
\<close>

definition clamp :: "'a::linorder \<Rightarrow> 'a \<Rightarrow> 'a \<Rightarrow> 'a" where
  "clamp a l h = (if a < l then l else if h < a then h else a)"

text \<open>The remainder of C++ on \<^verbatim>\<open>int\<close>: the quotient is truncated towards zero.\<close>

definition c_mod :: "int \<Rightarrow> int \<Rightarrow> int" where
  "c_mod a b = sgn a * (\<bar>a\<bar> mod \<bar>b\<bar>)"

text \<open>
  The quotient of two floats. With a zero divisor binary32 gives an infinity or a NaN,
  which is no real number: the model has no value for it.
\<close>

definition fdiv :: "real \<Rightarrow> real \<Rightarrow> real result" where
  "fdiv a b = (if b = 0 then Inl Undefined else Inr (a / b))"

section \<open>Raw developer\<close>

text \<open>The fields of \<^verbatim>\<open>tinydng::DNGImage\<close> this file reads; arrays are indexed from 0.\<close>

record DNGImage =
  dng_width :: nat
  dng_height :: nat
  bits_per_sample :: int
  samples_per_pixel :: int
  black_level :: "nat \<Rightarrow> int"
  white_level :: "nat \<Rightarrow> int"
  active_area :: "nat \<Rightarrow> int"
  orientation :: int
  color_matrix2 :: "nat \<Rightarrow> nat \<Rightarrow> real"
  forward_matrix2 :: "nat \<Rightarrow> nat \<Rightarrow> real"
  camera_calibration2 :: "nat \<Rightarrow> nat \<Rightarrow> real"
  analog_balance :: "nat \<Rightarrow> real"
  as_shot_neutral :: "nat \<Rightarrow> real"
  dng_data :: "byte list"

definition XYZD65TosRGB :: Matrix3f where
  "XYZD65TosRGB = Matrix3f
     3.2406 (-1.5372) (-0.4986)
     (-0.9689) 1.8758 0.0415
     0.0557 (-0.2040) 1.0570"

definition XYZD50ToXYZD65 :: Matrix3f where
  "XYZD50ToXYZD65 = Matrix3f
     0.9555766 (-0.0230393) 0.0631636
     (-0.0282895) 1.0099416 0.0210077
     0.0122982 (-0.0204830) 1.3299098"

definition XYZD50TosRGB :: Matrix3f where
  "XYZD50TosRGB = Matrix3f
     3.2404542 (-1.5371385) (-0.4985314)
     (-0.9692660) 1.8760108 0.0415560
     0.0556434 (-0.2040259) 1.0572252"

text \<open>The matrix read out of a \<^verbatim>\<open>double[3][3]\<close> field by the comma initialiser.\<close>

definition matrix_of :: "(nat \<Rightarrow> nat \<Rightarrow> real) \<Rightarrow> Matrix3f" where
  "matrix_of m = Matrix3f (m 0 0) (m 0 1) (m 0 2)  (m 1 0) (m 1 1) (m 1 2)
     (m 2 0) (m 2 1) (m 2 2)"

text \<open>
  \<^verbatim>\<open>computeCameraToXYZD50\<close>. The branch of the forward matrix is guarded by the literal
  \<^verbatim>\<open>false\<close> in the source and kept here as it is written.
\<close>

definition computeCameraToXYZD50 :: "DNGImage \<Rightarrow> Matrix3f" where
  "computeCameraToXYZD50 param =
     (if False then
        (let FM = matrix_of (forward_matrix2 param);
             CC = matrix_of (camera_calibration2 param);
             AB = asDiagonal (Vector3f (analog_balance param 0) (analog_balance param 1)
                    (analog_balance param 2));
             CameraNeutral = Vector3f (as_shot_neutral param 0) (as_shot_neutral param 1)
                    (as_shot_neutral param 2);
             ReferenceNeutral = mat_vec (mat_inverse (mat_mul AB CC)) CameraNeutral;
             D = mat_inverse (asDiagonal ReferenceNeutral);
             CameraToXYZ = mat_mul (mat_mul FM D) (mat_inverse (mat_mul AB CC))
         in CameraToXYZ)
      else
        (let CM = matrix_of (color_matrix2 param);
             CameraToXYZ = mat_inverse CM
         in CameraToXYZ))"


text \<open>\<^verbatim>\<open>raw[i]\<close> on the vector of samples; outside the vector the read is undefined.\<close>

definition read_float :: "real list \<Rightarrow> nat \<Rightarrow> real result" where
  "read_float raw i = (if i < length raw then Inr (raw ! i) else Inl Undefined)"

text \<open>
  Line 746, \<^verbatim>\<open>invScale = 1.0f / (whiteLevel - blackLevel)\<close>. With equal levels the quotient
  is the positive infinity of binary32: that is the value \<open>None\<close>.
\<close>

definition inv_scale :: "int \<Rightarrow> int \<Rightarrow> real option" where
  "inv_scale whiteLevel blackLevel =
     (if whiteLevel - blackLevel = 0 then None
      else Some (1 / real_of_int (whiteLevel - blackLevel)))"

text \<open>
  Line 751, \<^verbatim>\<open>clamp((raw[i] - blackLevel)*invScale, 0.f, 1.f)\<close>, for the difference \<open>d\<close>. A
  positive number times the infinity is the infinity, which \<^verbatim>\<open>clamp\<close> bounds to 1; a
  negative number gives the negative infinity, bounded to 0; zero times the infinity is
  not a number.
\<close>

definition scale_and_clamp :: "real \<Rightarrow> real option \<Rightarrow> real result" where
  "scale_and_clamp d invScale =
     (case invScale of
        Some k \<Rightarrow> Inr (clamp (d * k) 0 1)
      | None \<Rightarrow> if 0 < d then Inr 1 else if d < 0 then Inr 0 else Inl Undefined)"

text \<open>
  The first loop of \<^verbatim>\<open>develop\<close>: black and white level, then the division by the white
  balance. A white balance with a zero component makes \<^verbatim>\<open>cwiseQuotient\<close> divide by zero.
\<close>

definition develop_normalize ::
  "real list \<Rightarrow> int \<Rightarrow> real option \<Rightarrow> Vector3f \<Rightarrow> HDRImage \<Rightarrow> HDRImage result" where
  "develop_normalize raw blackLevel invScale wb developed =
     parallel_for 0 (img_height developed) (\<lambda>y.
       for_loop [0..<img_width developed] (\<lambda>x dev.
         bind_result (read_float raw (y * img_width dev + x)) (\<lambda>sample.
         bind_result (scale_and_clamp (sample - real_of_int blackLevel) invScale) (\<lambda>v.
           if vx wb = 0 \<or> vy wb = 0 \<or> vz wb = 0 then Inl Undefined
           else let rgb = cwiseQuotient (Vector3f v v v) wb
                in Inr (set_pixel dev x y (Color4 (vx rgb) (vy rgb) (vz rgb) 1))))))
       developed"

text \<open>The last loop of \<^verbatim>\<open>develop\<close>: the white balance is undone, then the matrix applied.\<close>

definition develop_color_correct :: "Matrix3f \<Rightarrow> Vector3f \<Rightarrow> HDRImage \<Rightarrow> HDRImage result" where
  "develop_color_correct CameraTosRGB_m wb developed =
     parallel_for 0 (img_height developed) (\<lambda>y.
       for_loop [0..<img_width developed] (\<lambda>x dev.
         let rgb = Vector3f (cr (img_pix dev x y)) (cg (img_pix dev x y)) (cb (img_pix dev x y));
             rgb' = cwiseProduct rgb wb;
             sRGB = mat_vec CameraTosRGB_m rgb'
         in Inr (set_pixel dev x y (Color4 (vx sRGB) (vy sRGB) (vz sRGB) 1))))
       developed"

text \<open>
  \<^verbatim>\<open>develop\<close>. The demosaic kernel \<^verbatim>\<open>demosaicAHD\<close> is a method of the pixel container,
  outside this file: it is the parameter \<open>demosaicAHD\<close>, given the red offset and the
  matrix hint. \<open>uninit\<close> stands for the coefficients of the fresh image before the first
  loop writes them. \<^verbatim>\<open>inverse()\<close> of a colour matrix whose determinant is zero divides
  by zero.
\<close>

definition develop ::
  "((int \<times> int) \<Rightarrow> Matrix3f \<Rightarrow> HDRImage \<Rightarrow> HDRImage) \<Rightarrow> (nat \<Rightarrow> nat \<Rightarrow> Color4) \<Rightarrow>
   real list \<Rightarrow> DNGImage \<Rightarrow> DNGImage \<Rightarrow> HDRImage result" where
  "develop demosaicAHD uninit raw param1 param2 =
     (let width = dng_width param1;
          height = dng_height param1;
          blackLevel = black_level param1 0;
          whiteLevel = white_level param1 0;
          redOffset = (c_mod (active_area param1 1) 2, c_mod (active_area param1 0) 2);
          developed = \<lparr>img_width = width, img_height = height, img_pix = uninit\<rparr>
      in if determinant (matrix_of (color_matrix2 param2)) = 0 then Inl Undefined
         else
           let CameraToXYZD50 = computeCameraToXYZD50 param2;
               CameraTosRGB_m = mat_mul XYZD50TosRGB CameraToXYZD50;
               wb = Vector3f (as_shot_neutral param2 0) (as_shot_neutral param2 1)
                      (as_shot_neutral param2 2);
               invScale = inv_scale whiteLevel blackLevel
           in bind_result (develop_normalize raw blackLevel invScale wb developed) (\<lambda>developed1.
                develop_color_correct CameraTosRGB_m wb
                  (demosaicAHD redOffset (mat_mul XYZD50ToXYZD65 CameraToXYZD50) developed1)))"

section \<open>Copying decoded samples into the image\<close>

text \<open>The table literal of \<^verbatim>\<open>copyPixelsFromArray\<close>, entry by entry.\<close>

definition turboRGBf :: "real list list" where
  "turboRGBf = [
     [0.18995, 0.07176, 0.23217], [0.19483, 0.08339, 0.26149], [0.19956, 0.09498, 0.29024], [0.20415, 0.10652, 0.31844],
     [0.20860, 0.11802, 0.34607], [0.21291, 0.12947, 0.37314], [0.21708, 0.14087, 0.39964], [0.22111, 0.15223, 0.42558],
     [0.22500, 0.16354, 0.45096], [0.22875, 0.17481, 0.47578], [0.23236, 0.18603, 0.50004], [0.23582, 0.19720, 0.52373],
     [0.23915, 0.20833, 0.54686], [0.24234, 0.21941, 0.56942], [0.24539, 0.23044, 0.59142], [0.24830, 0.24143, 0.61286],
     [0.25107, 0.25237, 0.63374], [0.25369, 0.26327, 0.65406], [0.25618, 0.27412, 0.67381], [0.25853, 0.28492, 0.69300],
     [0.26074, 0.29568, 0.71162], [0.26280, 0.30639, 0.72968], [0.26473, 0.31706, 0.74718], [0.26652, 0.32768, 0.76412],
     [0.26816, 0.33825, 0.78050], [0.26967, 0.34878, 0.79631], [0.27103, 0.35926, 0.81156], [0.27226, 0.36970, 0.82624],
     [0.27334, 0.38008, 0.84037], [0.27429, 0.39043, 0.85393], [0.27509, 0.40072, 0.86692], [0.27576, 0.41097, 0.87936],
     [0.27628, 0.42118, 0.89123], [0.27667, 0.43134, 0.90254], [0.27691, 0.44145, 0.91328], [0.27701, 0.45152, 0.92347],
     [0.27698, 0.46153, 0.93309], [0.27680, 0.47151, 0.94214], [0.27648, 0.48144, 0.95064], [0.27603, 0.49132, 0.95857],
     [0.27543, 0.50115, 0.96594], [0.27469, 0.51094, 0.97275], [0.27381, 0.52069, 0.97899], [0.27273, 0.53040, 0.98461],
     [0.27106, 0.54015, 0.98930], [0.26878, 0.54995, 0.99303], [0.26592, 0.55979, 0.99583], [0.26252, 0.56967, 0.99773],
     [0.25862, 0.57958, 0.99876], [0.25425, 0.58950, 0.99896], [0.24946, 0.59943, 0.99835], [0.24427, 0.60937, 0.99697],
     [0.23874, 0.61931, 0.99485], [0.23288, 0.62923, 0.99202], [0.22676, 0.63913, 0.98851], [0.22039, 0.64901, 0.98436],
     [0.21382, 0.65886, 0.97959], [0.20708, 0.66866, 0.97423], [0.20021, 0.67842, 0.96833], [0.19326, 0.68812, 0.96190],
     [0.18625, 0.69775, 0.95498], [0.17923, 0.70732, 0.94761], [0.17223, 0.71680, 0.93981], [0.16529, 0.72620, 0.93161],
     [0.15844, 0.73551, 0.92305], [0.15173, 0.74472, 0.91416], [0.14519, 0.75381, 0.90496], [0.13886, 0.76279, 0.89550],
     [0.13278, 0.77165, 0.88580], [0.12698, 0.78037, 0.87590], [0.12151, 0.78896, 0.86581], [0.11639, 0.79740, 0.85559],
     [0.11167, 0.80569, 0.84525], [0.10738, 0.81381, 0.83484], [0.10357, 0.82177, 0.82437], [0.10026, 0.82955, 0.81389],
     [0.09750, 0.83714, 0.80342], [0.09532, 0.84455, 0.79299], [0.09377, 0.85175, 0.78264], [0.09287, 0.85875, 0.77240],
     [0.09267, 0.86554, 0.76230], [0.09320, 0.87211, 0.75237], [0.09451, 0.87844, 0.74265], [0.09662, 0.88454, 0.73316],
     [0.09958, 0.89040, 0.72393], [0.10342, 0.89600, 0.71500], [0.10815, 0.90142, 0.70599], [0.11374, 0.90673, 0.69651],
     [0.12014, 0.91193, 0.68660], [0.12733, 0.91701, 0.67627], [0.13526, 0.92197, 0.66556], [0.14391, 0.92680, 0.65448],
     [0.15323, 0.93151, 0.64308], [0.16319, 0.93609, 0.63137], [0.17377, 0.94053, 0.61938], [0.18491, 0.94484, 0.60713],
     [0.19659, 0.94901, 0.59466], [0.20877, 0.95304, 0.58199], [0.22142, 0.95692, 0.56914], [0.23449, 0.96065, 0.55614],
     [0.24797, 0.96423, 0.54303], [0.26180, 0.96765, 0.52981], [0.27597, 0.97092, 0.51653], [0.29042, 0.97403, 0.50321],
     [0.30513, 0.97697, 0.48987], [0.32006, 0.97974, 0.47654], [0.33517, 0.98234, 0.46325], [0.35043, 0.98477, 0.45002],
     [0.36581, 0.98702, 0.43688], [0.38127, 0.98909, 0.42386], [0.39678, 0.99098, 0.41098], [0.41229, 0.99268, 0.39826],
     [0.42778, 0.99419, 0.38575], [0.44321, 0.99551, 0.37345], [0.45854, 0.99663, 0.36140], [0.47375, 0.99755, 0.34963],
     [0.48879, 0.99828, 0.33816], [0.50362, 0.99879, 0.32701], [0.51822, 0.99910, 0.31622], [0.53255, 0.99919, 0.30581],
     [0.54658, 0.99907, 0.29581], [0.56026, 0.99873, 0.28623], [0.57357, 0.99817, 0.27712], [0.58646, 0.99739, 0.26849],
     [0.59891, 0.99638, 0.26038], [0.61088, 0.99514, 0.25280], [0.62233, 0.99366, 0.24579], [0.63323, 0.99195, 0.23937],
     [0.64362, 0.98999, 0.23356], [0.65394, 0.98775, 0.22835], [0.66428, 0.98524, 0.22370], [0.67462, 0.98246, 0.21960],
     [0.68494, 0.97941, 0.21602], [0.69525, 0.97610, 0.21294], [0.70553, 0.97255, 0.21032], [0.71577, 0.96875, 0.20815],
     [0.72596, 0.96470, 0.20640], [0.73610, 0.96043, 0.20504], [0.74617, 0.95593, 0.20406], [0.75617, 0.95121, 0.20343],
     [0.76608, 0.94627, 0.20311], [0.77591, 0.94113, 0.20310], [0.78563, 0.93579, 0.20336], [0.79524, 0.93025, 0.20386],
     [0.80473, 0.92452, 0.20459], [0.81410, 0.91861, 0.20552], [0.82333, 0.91253, 0.20663], [0.83241, 0.90627, 0.20788],
     [0.84133, 0.89986, 0.20926], [0.85010, 0.89328, 0.21074], [0.85868, 0.88655, 0.21230], [0.86709, 0.87968, 0.21391],
     [0.87530, 0.87267, 0.21555], [0.88331, 0.86553, 0.21719], [0.89112, 0.85826, 0.21880], [0.89870, 0.85087, 0.22038],
     [0.90605, 0.84337, 0.22188], [0.91317, 0.83576, 0.22328], [0.92004, 0.82806, 0.22456], [0.92666, 0.82025, 0.22570],
     [0.93301, 0.81236, 0.22667], [0.93909, 0.80439, 0.22744], [0.94489, 0.79634, 0.22800], [0.95039, 0.78823, 0.22831],
     [0.95560, 0.78005, 0.22836], [0.96049, 0.77181, 0.22811], [0.96507, 0.76352, 0.22754], [0.96931, 0.75519, 0.22663],
     [0.97323, 0.74682, 0.22536], [0.97679, 0.73842, 0.22369], [0.98000, 0.73000, 0.22161], [0.98289, 0.72140, 0.21918],
     [0.98549, 0.71250, 0.21650], [0.98781, 0.70330, 0.21358], [0.98986, 0.69382, 0.21043], [0.99163, 0.68408, 0.20706],
     [0.99314, 0.67408, 0.20348], [0.99438, 0.66386, 0.19971], [0.99535, 0.65341, 0.19577], [0.99607, 0.64277, 0.19165],
     [0.99654, 0.63193, 0.18738], [0.99675, 0.62093, 0.18297], [0.99672, 0.60977, 0.17842], [0.99644, 0.59846, 0.17376],
     [0.99593, 0.58703, 0.16899], [0.99517, 0.57549, 0.16412], [0.99419, 0.56386, 0.15918], [0.99297, 0.55214, 0.15417],
     [0.99153, 0.54036, 0.14910], [0.98987, 0.52854, 0.14398], [0.98799, 0.51667, 0.13883], [0.98590, 0.50479, 0.13367],
     [0.98360, 0.49291, 0.12849], [0.98108, 0.48104, 0.12332], [0.97837, 0.46920, 0.11817], [0.97545, 0.45740, 0.11305],
     [0.97234, 0.44565, 0.10797], [0.96904, 0.43399, 0.10294], [0.96555, 0.42241, 0.09798], [0.96187, 0.41093, 0.09310],
     [0.95801, 0.39958, 0.08831], [0.95398, 0.38836, 0.08362], [0.94977, 0.37729, 0.07905], [0.94538, 0.36638, 0.07461],
     [0.94084, 0.35566, 0.07031], [0.93612, 0.34513, 0.06616], [0.93125, 0.33482, 0.06218], [0.92623, 0.32473, 0.05837],
     [0.92105, 0.31489, 0.05475], [0.91572, 0.30530, 0.05134], [0.91024, 0.29599, 0.04814], [0.90463, 0.28696, 0.04516],
     [0.89888, 0.27824, 0.04243], [0.89298, 0.26981, 0.03993], [0.88691, 0.26152, 0.03753], [0.88066, 0.25334, 0.03521],
     [0.87422, 0.24526, 0.03297], [0.86760, 0.23730, 0.03082], [0.86079, 0.22945, 0.02875], [0.85380, 0.22170, 0.02677],
     [0.84662, 0.21407, 0.02487], [0.83926, 0.20654, 0.02305], [0.83172, 0.19912, 0.02131], [0.82399, 0.19182, 0.01966],
     [0.81608, 0.18462, 0.01809], [0.80799, 0.17753, 0.01660], [0.79971, 0.17055, 0.01520], [0.79125, 0.16368, 0.01387],
     [0.78260, 0.15693, 0.01264], [0.77377, 0.15028, 0.01148], [0.76476, 0.14374, 0.01041], [0.75556, 0.13731, 0.00942],
     [0.74617, 0.13098, 0.00851], [0.73661, 0.12477, 0.00769], [0.72686, 0.11867, 0.00695], [0.71692, 0.11268, 0.00629],
     [0.70680, 0.10680, 0.00571], [0.69650, 0.10102, 0.00522], [0.68602, 0.09536, 0.00481], [0.67535, 0.08980, 0.00449],
     [0.66449, 0.08436, 0.00424], [0.65345, 0.07902, 0.00408], [0.64223, 0.07380, 0.00401], [0.63082, 0.06868, 0.00401],
     [0.61923, 0.06367, 0.00410], [0.60746, 0.05878, 0.00427], [0.59550, 0.05399, 0.00453], [0.58336, 0.04931, 0.00486],
     [0.57103, 0.04474, 0.00529], [0.55852, 0.04028, 0.00579], [0.54583, 0.03593, 0.00638], [0.53295, 0.03169, 0.00705],
     [0.51989, 0.02756, 0.00780], [0.50664, 0.02354, 0.00863], [0.49321, 0.01963, 0.00955], [0.47960, 0.01583, 0.01055]]"

text \<open>\<^verbatim>\<open>FLT_MAX\<close>, the largest finite binary32 value.\<close>

definition FLT_MAX :: real where
  "FLT_MAX = 340282346638528859811704183484516925440"

text \<open>\<^verbatim>\<open>std::round\<close>: to the nearest integer, halves away from zero.\<close>

definition c_round :: "real \<Rightarrow> int" where
  "c_round x = (if 0 \<le> x then \<lfloor>x + 1 / 2\<rfloor> else \<lceil>x - 1 / 2\<rceil>)"

text \<open>
  The first loop nest of the one-channel branch: the least and the greatest of the
  samples above zero.
\<close>

definition scan_min_max :: "real list \<Rightarrow> nat \<Rightarrow> nat \<Rightarrow> (real \<times> real) result" where
  "scan_min_max data w h =
     for_loop [0..<h] (\<lambda>y.
       for_loop [0..<w] (\<lambda>x (minVal, maxVal).
         bind_result (read_float data (x + y * w)) (\<lambda>p.
           if p \<le> 0 then Inr (minVal, maxVal)
           else Inr (if minVal > p then p else minVal, if maxVal < p then p else maxVal))))
       (FLT_MAX, - FLT_MAX)"

text \<open>
  \<^verbatim>\<open>turboRGBf[(int)std::round(255.f*(p-minVal)/delta)]\<close>. The difference, the product and
  the quotient are floats: each is rounded by \<open>rnd\<close>, the rounding to binary32. With
  \<open>delta = 0\<close> the quotient is not a number and its conversion to \<^verbatim>\<open>int\<close> is undefined, as
  is an index outside the table.
\<close>

definition turbo_entry :: "(real \<Rightarrow> real) \<Rightarrow> real \<Rightarrow> real \<Rightarrow> real \<Rightarrow> real list result" where
  "turbo_entry rnd p minVal delta =
     (if delta = 0 then Inl Undefined
      else let idx = c_round (rnd (rnd (255 * rnd (p - minVal)) / delta))
           in if 0 \<le> idx \<and> idx < 256 then Inr (turboRGBf ! nat idx) else Inl Undefined)"

text \<open>
  \<^verbatim>\<open>copyPixelsFromArray\<close>. \<^verbatim>\<open>SRGBToLinear\<close> is declared in \<^verbatim>\<open>Colorspace.h\<close> and is a
  parameter here, as is the rounding to binary32, \<open>rnd\<close>. The image has been resized to
  \<open>w\<close> by \<open>h\<close> by every caller.
\<close>

definition copyPixelsFromArray ::
  "(real \<Rightarrow> real) \<Rightarrow> (Color4 \<Rightarrow> Color4) \<Rightarrow> HDRImage \<Rightarrow> real list \<Rightarrow> nat \<Rightarrow> nat \<Rightarrow> int \<Rightarrow>
   bool \<Rightarrow> bool \<Rightarrow> HDRImage result" where
  "copyPixelsFromArray rnd SRGBToLinear img data w h n convertToLinear flip =
     (if n \<noteq> 1 \<and> n \<noteq> 3 \<and> n \<noteq> 4 then
        Inl (Exception ''Only 1- 3- and 4-channel images are supported.'')
      else if n = 1 then
        bind_result (scan_min_max data w h) (\<lambda>(minVal, maxVal).
          let delta = rnd (maxVal - minVal) in
          parallel_for 0 h (\<lambda>y.
            for_loop [0..<w] (\<lambda>x img'.
              bind_result (read_float data (x + y * w)) (\<lambda>p.
                if p \<le> 0 then
                  Inr (set_pixel img' x (if flip then h - y - 1 else y) (Color4 0 0 0 0))
                else
                  bind_result (turbo_entry rnd p minVal delta) (\<lambda>t.
                    let c = Color4 (t ! 2) (t ! 1) (t ! 0) 1
                    in Inr (set_pixel img' x (if flip then h - y - 1 else y)
                              (SRGBToLinear c))))))
            img)
      else
        parallel_for 0 h (\<lambda>y.
          for_loop [0..<w] (\<lambda>x img'.
            bind_result (read_float data (nat n * (x + y * w) + 0)) (\<lambda>c0.
            bind_result (read_float data (nat n * (x + y * w) + 1)) (\<lambda>c1.
            bind_result (read_float data (nat n * (x + y * w) + 2)) (\<lambda>c2.
            bind_result (if n = 3 then Inr 1 else read_float data (4 * (x + y * w) + 3)) (\<lambda>c3.
              let c = Color4 c0 c1 c2 c3
              in Inr (set_pixel img' x (if flip then h - y - 1 else y)
                        (if convertToLinear then SRGBToLinear c else c))))))))
          img)"

section \<open>Geometric operations\<close>

text \<open>
  Modelled from the spec: flip-horizontal, flip-vertical, rotate-90CW, rotate-90CCW and
  the rectangular crop are methods of the pixel container (section 6), outside this
  file; each returns a new image. Flip-horizontal mirrors the columns, flip-vertical
  the rows; a rotation exchanges the extents.
\<close>

definition flippedHorizontal :: "HDRImage \<Rightarrow> HDRImage" where
  "flippedHorizontal img =
     img\<lparr>img_pix := \<lambda>x y. img_pix img (img_width img - 1 - x) y\<rparr>"

definition flippedVertical :: "HDRImage \<Rightarrow> HDRImage" where
  "flippedVertical img =
     img\<lparr>img_pix := \<lambda>x y. img_pix img x (img_height img - 1 - y)\<rparr>"

definition rotated90CW :: "HDRImage \<Rightarrow> HDRImage" where
  "rotated90CW img =
     \<lparr>img_width = img_height img, img_height = img_width img,
      img_pix = \<lambda>x y. img_pix img y (img_height img - 1 - x)\<rparr>"

definition rotated90CCW :: "HDRImage \<Rightarrow> HDRImage" where
  "rotated90CCW img =
     \<lparr>img_width = img_height img, img_height = img_width img,
      img_pix = \<lambda>x y. img_pix img (img_width img - 1 - y) x\<rparr>"

text \<open>
  Modelled from the spec: \<^verbatim>\<open>block(startRow, startCol, blockRows, blockCols)\<close> of Eigen,
  the rectangular crop; rows of the array are the \<open>x\<close> coordinate. A block that does not
  lie inside the array is undefined.
\<close>

definition block :: "HDRImage \<Rightarrow> int \<Rightarrow> int \<Rightarrow> int \<Rightarrow> int \<Rightarrow> HDRImage result" where
  "block img startRow startCol blockRows blockCols =
     (if 0 \<le> startRow \<and> 0 \<le> startCol \<and> 0 \<le> blockRows \<and> 0 \<le> blockCols \<and>
         startRow + blockRows \<le> int (img_width img) \<and>
         startCol + blockCols \<le> int (img_height img)
      then Inr \<lparr>img_width = nat blockRows, img_height = nat blockCols,
                img_pix = \<lambda>x y. img_pix img (nat startRow + x) (nat startCol + y)\<rparr>
      else Inl Undefined)"

section \<open>Load dispatcher\<close>

text \<open>
  What the codecs outside this file report for the file being loaded. \<^verbatim>\<open>stbi_loadf\<close> and
  \<^verbatim>\<open>stbi__load_main\<close> decode the same file with the same decoder: they succeed or fail
  together and agree on the extents and on the number of channels, so one record
  describes both. \<open>stb_float_data\<close> is the result of \<^verbatim>\<open>stbi_loadf\<close> with four channels
  requested, \<open>stb_data16\<close> the result of \<^verbatim>\<open>stbi__load_main\<close> with one channel requested,
  read as \<^verbatim>\<open>uint16_t\<close>. When the decoder fails it writes neither the extents nor \<^verbatim>\<open>n\<close>, and
  whichever way the test \<^verbatim>\<open>n == 1\<close> of line 200 then goes, control reaches the \<^verbatim>\<open>else\<close> of
  line 235.
\<close>

record stb_image =
  stb_w :: nat
  stb_h :: nat
  stb_n :: int
  stb_float_data :: "real list"
  stb_bits_per_channel :: int
  stb_data16 :: "ushort list"

datatype npy_type = NPY_float | NPY_uint8 | NPY_other

record file_env =
  file_extension :: string
  fopen_ok :: bool
  stbi_jpeg_test :: bool
  stbi_png_test :: bool
  stbi_bmp_test :: bool
  stbi_gif_test :: bool
  stbi_psd_test :: bool
  stbi_pic_test :: bool
  stbi_pnm_test :: bool
  stbi_hdr_test :: bool
  stbi_tga_test :: bool
  stbi_decode :: "stb_image option"
  stbi_failure_reason :: string
  stbi_is_hdr :: bool
  isPFMImage :: bool
  loadPFMImage :: "(nat \<times> nat \<times> int \<times> real list option) result"
  npy_LoadNPY_ok :: bool
  npy_Shape :: "nat list"
  npy_ValueType :: npy_type
  npy_Data :: "real list"
  isOpenExrFile :: bool
  exr_read :: "(nat \<times> nat \<times> (nat \<Rightarrow> nat \<Rightarrow> Color4)) result"
  LoadDNG_ret :: bool
  LoadDNG_images :: "DNGImage list"
  LoadDNG_err :: string

text \<open>
  The functions of the program declared in other files, and the facts of the platform
  the code leaves open: the byte order, the coefficients of a freshly constructed
  image, the rounding of a real number to binary32, and the texts that \<^verbatim>\<open>what()\<close> returns
  for the exceptions of \<^verbatim>\<open>vector::at\<close> and \<^verbatim>\<open>vector::resize\<close>, which the standard library
  chooses.
\<close>

record externals =
  ext_SRGBToLinear :: "Color4 \<Rightarrow> Color4"
  ext_demosaicAHD :: "(int \<times> int) \<Rightarrow> Matrix3f \<Rightarrow> HDRImage \<Rightarrow> HDRImage"
  ext_big_endian :: bool
  ext_uninitialized :: "nat \<Rightarrow> nat \<Rightarrow> Color4"
  ext_round :: "real \<Rightarrow> real"
  ext_what_at :: string
  ext_what_resize :: string

definition TAB :: string where
  "TAB = [CHR 0x09]"

definition NL :: string where
  "NL = [CHR 0x0A]"

text \<open>\<^verbatim>\<open>std::to_string\<close> on an \<^verbatim>\<open>int\<close>.\<close>

definition digit_char :: "nat \<Rightarrow> char" where
  "digit_char d = char_of (48 + d)"

function string_of_nat :: "nat \<Rightarrow> string" where
  "string_of_nat n =
     (if n div 10 = 0 then [digit_char n]
      else string_of_nat (n div 10) @ [digit_char (n mod 10)])"
  by pat_completeness auto
termination
  by (relation "measure (\<lambda>n. n)") auto

definition to_string :: "int \<Rightarrow> string" where
  "to_string i = (if i < 0 then ''-'' @ string_of_nat (nat (- i)) else string_of_nat (nat i))"

text \<open>\<^verbatim>\<open>isSTBImage\<close>.\<close>

definition isSTBImage :: "file_env \<Rightarrow> bool" where
  "isSTBImage env =
     (if \<not> fopen_ok env then False
      else if stbi_jpeg_test env \<or> stbi_png_test env \<or> stbi_bmp_test env \<or>
              stbi_gif_test env \<or> stbi_psd_test env \<or> stbi_pic_test env \<or>
              stbi_pnm_test env \<or> stbi_hdr_test env \<or> stbi_tga_test env
      then True
      else False)"

text \<open>\<^verbatim>\<open>filename.size()>5 && filename.substr(filename.size()-4)==suffix\<close>.\<close>

definition name_ends :: "string \<Rightarrow> string \<Rightarrow> bool" where
  "name_ends filename suffix \<longleftrightarrow>
     length filename > 5 \<and> drop (length filename - 4) filename = suffix"

text \<open>What a block of \<^verbatim>\<open>load\<close> does to the control flow.\<close>

datatype step =
    Returned bool HDRImage
  | Continue HDRImage string
  | Escaped exn

text \<open>
  \<^verbatim>\<open>try { body } catch (const exception &e) { resize(0, 0); errors += ... }\<close> around a body
  that returns \<^verbatim>\<open>true\<close> with the image it built. Every \<^verbatim>\<open>throw\<close> of the bodies below
  comes before the first write to the image, so the handler resizes the image the block
  started with.
\<close>

definition try_catch :: "HDRImage result \<Rightarrow> HDRImage \<Rightarrow> string \<Rightarrow> bool \<Rightarrow> step" where
  "try_catch body img errors report =
     (case body of
        Inr img' \<Rightarrow> Returned True img'
      | Inl (Exception m) \<Rightarrow>
          Continue (resize 0 0 img) (if report then errors @ TAB @ m @ NL else errors)
      | Inl Undefined \<Rightarrow> Escaped Undefined)"

text \<open>
  Lines 213 to 217: the samples of a 16-bit one-channel PNG as depths. The quotient by
  1000 is a float, rounded by \<open>rnd\<close>.
\<close>

definition read_data16 :: "ushort list \<Rightarrow> nat \<Rightarrow> ushort result" where
  "read_data16 data16 i = (if i < length data16 then Inr (data16 ! i) else Inl Undefined)"

definition png16_depth :: "(real \<Rightarrow> real) \<Rightarrow> ushort list \<Rightarrow> nat \<Rightarrow> real list result" where
  "png16_depth rnd data16 count =
     for_loop [0..<count] (\<lambda>i data.
       bind_result (read_data16 data16 i) (\<lambda>v.
         let data' = data[i := rnd (real (unat v) / 1000)]
         in Inr (if rnd (real (unat v) / 1000) > 5 then data'[i := 0] else data')))
       (replicate count 0)"

text \<open>Lines 192 to 239: the formats of the stb library.\<close>

definition load_stb :: "externals \<Rightarrow> file_env \<Rightarrow> string \<Rightarrow> HDRImage \<Rightarrow> string \<Rightarrow> step" where
  "load_stb ext env filename img errors =
     (if isSTBImage env then
        (case stbi_decode env of
           Some d \<Rightarrow>
             if stb_n d = 1 \<and> name_ends filename ''.png'' \<and> stb_bits_per_channel d = 16 then
               (case bind_result
                       (png16_depth (ext_round ext) (stb_data16 d) (stb_w d * stb_h d)) (\<lambda>data.
                       copyPixelsFromArray (ext_round ext) (ext_SRGBToLinear ext)
                         (resize (stb_w d) (stb_h d) img)
                         data (stb_w d) (stb_h d) (stb_n d) False True) of
                  Inr img' \<Rightarrow> Returned True img'
                | Inl e \<Rightarrow> Escaped e)
             else
               (case copyPixelsFromArray (ext_round ext) (ext_SRGBToLinear ext)
                       (resize (stb_w d) (stb_h d) img)
                       (stb_float_data d) (stb_w d) (stb_h d) 4 (\<not> stbi_is_hdr env) False of
                  Inr img' \<Rightarrow> Returned True img'
                | Inl e \<Rightarrow> Escaped e)
         | None \<Rightarrow> Continue img (errors @ TAB @ stbi_failure_reason env @ NL))
      else Continue img errors)"

text \<open>Lines 243 to 278: PFM.\<close>

definition load_pfm :: "externals \<Rightarrow> file_env \<Rightarrow> HDRImage \<Rightarrow> string \<Rightarrow> step" where
  "load_pfm ext env img errors =
     (if isPFMImage env then
        try_catch
          (bind_result (loadPFMImage env) (\<lambda>(w, h, n, float_data).
             case float_data of
               Some fd \<Rightarrow>
                 if n = 3 \<or> n = 1 then
                   copyPixelsFromArray (ext_round ext) (ext_SRGBToLinear ext) (resize w h img)
                     fd w h n False True
                 else Inl (Exception
                   ''Only 3-channel or 1-channel PFMs are currently supported.'')
             | None \<Rightarrow> Inl (Exception ''Could not load PFM image.'')))
          img errors True
      else Continue img errors)"

text \<open>Lines 282 to 315: NPY. The last \<^verbatim>\<open>return true\<close> leaves the image as it was.\<close>

definition load_npy :: "externals \<Rightarrow> file_env \<Rightarrow> string \<Rightarrow> HDRImage \<Rightarrow> string \<Rightarrow> step" where
  "load_npy ext env filename img errors =
     (if name_ends filename ''.npy'' then
        try_catch
          (if \<not> npy_LoadNPY_ok env then Inl (Exception ''Could not load NPY image.'')
           else if length (npy_Shape env) < 2 \<or> length (npy_Shape env) > 3 then
             Inl (Exception ''NPY not an image.'')
           else
             let w = npy_Shape env ! 1;
                 h = npy_Shape env ! 0;
                 n = (if length (npy_Shape env) = 2 then 1 else int (npy_Shape env ! 2))
             in if (n = 3 \<or> n = 4 \<or> n = 1) \<and> npy_ValueType env = NPY_float then
                  copyPixelsFromArray (ext_round ext) (ext_SRGBToLinear ext) (resize w h img)
                    (npy_Data env) w h n False False
                else if n \<noteq> 4 \<or> npy_ValueType env \<noteq> NPY_uint8 then
                  Inl (Exception ''Only 1- 3- 4-channel float NPYs are currently supported.'')
                else Inr img)
          img errors True
      else Continue img errors)"

text \<open>Lines 318 to 360: OpenEXR.\<close>

definition load_exr :: "file_env \<Rightarrow> HDRImage \<Rightarrow> string \<Rightarrow> step" where
  "load_exr env img errors =
     (if isOpenExrFile env then
        try_catch
          (bind_result (exr_read env) (\<lambda>(w, h, pixels).
             parallel_for 0 h (\<lambda>y.
               for_loop [0..<w] (\<lambda>x img'. Inr (set_pixel img' x y (pixels y x))))
               (resize w h img)))
          img errors True
      else Continue img errors)"

text \<open>Lines 376 to 383: the last orientation that is set in any image of the file.\<close>

definition find_orientation :: "DNGImage list \<Rightarrow> int" where
  "find_orientation images =
     foldl (\<lambda>orient im. if orientation im \<noteq> 0 then orientation im else orient) 0 images"

text \<open>
  Lines 386 to 400: the first image of the greatest width. \<^verbatim>\<open>images[0]\<close> on an empty
  vector is undefined.
\<close>

definition find_largest :: "DNGImage list \<Rightarrow> nat result" where
  "find_largest images =
     (if images = [] then Inl Undefined
      else Inr (fst (foldl
        (\<lambda>(largest, largestWidth) i.
           if largestWidth < dng_width (images ! i) then (i, dng_width (images ! i))
           else (largest, largestWidth))
        (0, dng_width (images ! 0)) [0..<length images])))"

text \<open>
  Lines 415 to 426: the samples as floats. \<^verbatim>\<open>image.data.at(0)\<close> throws on an empty buffer.
  The decoders get the height \<^verbatim>\<open>h * spp\<close>; a negative count converted to \<^verbatim>\<open>size_t\<close> is
  beyond the greatest size of a vector and \<^verbatim>\<open>resize\<close> throws. The texts of the two
  exceptions are those of the platform.
\<close>

definition dng_decode :: "externals \<Rightarrow> DNGImage \<Rightarrow> real list result" where
  "dng_decode ext dimage =
     (let w = dng_width dimage;
          h = dng_height dimage;
          spp = samples_per_pixel dimage;
          endianSwap = False;
          data = (if dng_data dimage = [] then Inl (Exception (ext_what_at ext))
                  else Inr (dng_data dimage));
          height = (if int w * (int h * spp) < 0 then Inl (Exception (ext_what_resize ext))
                    else Inr (nat (int h * spp)))
      in if bits_per_sample dimage = 12 then
           bind_result data (\<lambda>d. bind_result height (\<lambda>hs.
             decode12BitToFloat [] d w hs endianSwap))
         else if bits_per_sample dimage = 14 then
           bind_result data (\<lambda>d. bind_result height (\<lambda>hs.
             decode14BitToFloat [] d w hs endianSwap))
         else if bits_per_sample dimage = 16 then
           bind_result data (\<lambda>d. bind_result height (\<lambda>hs.
             decode16BitToFloat (ext_big_endian ext) [] d w hs endianSwap))
         else Inl (Exception
           (''Error loading DNG: Unsupported bits_per_sample : '' @ to_string spp)))"

text \<open>
  Lines 429 to 454: three samples per pixel. The first loop scales the vector in
  place, the second reads the scaled vector.
\<close>

definition dng_three_samples ::
  "HDRImage \<Rightarrow> real list \<Rightarrow> nat \<Rightarrow> nat \<Rightarrow> real \<Rightarrow> HDRImage result" where
  "dng_three_samples img hdr w h invScale =
     bind_result
       (parallel_for 0 (length hdr) (\<lambda>i hdr'. Inr (hdr'[i := hdr' ! i * invScale])) hdr)
       (\<lambda>hdr1.
          parallel_for 0 h (\<lambda>y.
            for_loop [0..<w] (\<lambda>x img'.
              let index = 3 * y * w + x in
              bind_result (read_float hdr1 index) (\<lambda>s.
                Inr (set_pixel img' x y
                  (Color4 (s * invScale + 0) (s * invScale + 1) (s * invScale + 2) 1)))))
            (resize w h img))"

text \<open>Lines 467 to 474: the crop to the active area.\<close>

definition dng_crop :: "HDRImage \<Rightarrow> DNGImage \<Rightarrow> HDRImage result" where
  "dng_crop img dimage =
     (let w = int (dng_width dimage);
          h = int (dng_height dimage);
          startRow = clamp (active_area dimage 1) 0 w;
          endRow = clamp (active_area dimage 3) 0 w;
          startCol = clamp (active_area dimage 0) 0 h;
          endCol = clamp (active_area dimage 2) 0 h
      in block img startRow startCol (endRow - startRow) (endCol - startCol))"

definition ORIENTATION_TOPRIGHT :: int where "ORIENTATION_TOPRIGHT = 2"
definition ORIENTATION_BOTRIGHT :: int where "ORIENTATION_BOTRIGHT = 3"
definition ORIENTATION_BOTLEFT :: int where "ORIENTATION_BOTLEFT = 4"
definition ORIENTATION_LEFTTOP :: int where "ORIENTATION_LEFTTOP = 5"
definition ORIENTATION_RIGHTTOP :: int where "ORIENTATION_RIGHTTOP = 6"
definition ORIENTATION_RIGHTBOT :: int where "ORIENTATION_RIGHTBOT = 7"
definition ORIENTATION_LEFTBOT :: int where "ORIENTATION_LEFTBOT = 8"

definition apply_orientation :: "int \<Rightarrow> HDRImage \<Rightarrow> HDRImage" where
  "apply_orientation orient img =
     (if orient = ORIENTATION_TOPRIGHT then flippedHorizontal img
      else if orient = ORIENTATION_BOTRIGHT then flippedHorizontal (flippedVertical img)
      else if orient = ORIENTATION_BOTLEFT then flippedVertical img
      else if orient = ORIENTATION_LEFTTOP then flippedVertical (rotated90CCW img)
      else if orient = ORIENTATION_RIGHTTOP then rotated90CW img
      else if orient = ORIENTATION_RIGHTBOT then flippedVertical (rotated90CW img)
      else if orient = ORIENTATION_LEFTBOT then rotated90CCW img
      else img)"

text \<open>Lines 362 to 502: the body of the last \<^verbatim>\<open>try\<close>, the raw sensor container.\<close>

definition load_dng :: "externals \<Rightarrow> file_env \<Rightarrow> HDRImage \<Rightarrow> HDRImage result" where
  "load_dng ext env img =
     (if \<not> LoadDNG_ret env then
        Inl (Exception (''Failed to load DNG. '' @ LoadDNG_err env))
      else
        let images = LoadDNG_images env;
            orient = find_orientation images
        in bind_result (find_largest images) (\<lambda>imageIndex.
             let dimage = images ! imageIndex;
                 w = dng_width dimage;
                 h = dng_height dimage;
                 spp = samples_per_pixel dimage
             in bind_result (dng_decode ext dimage) (\<lambda>hdr.
                  let invScale = 1 / 2 ^ nat (bits_per_sample dimage) in
                  bind_result
                    (if spp = 3 then dng_three_samples img hdr w h invScale
                     else if spp = 1 then
                       develop (ext_demosaicAHD ext) (ext_uninitialized ext) hdr dimage
                         (last images)
                     else Inl (Exception
                       (''Error loading DNG: Unsupported samples per pixel: '' @
                        to_string spp)))
                    (\<lambda>img1. bind_result (dng_crop img1 dimage) (\<lambda>img2.
                       Inr (apply_orientation orient img2))))))"

text \<open>\<^verbatim>\<open>HDRImage::load\<close>: the blocks in their order, and what the caller observes.\<close>

fun and_then :: "step \<Rightarrow> (HDRImage \<Rightarrow> string \<Rightarrow> step) \<Rightarrow> step" where
  "and_then (Continue img errors) f = f img errors"
| "and_then (Returned b img) f = Returned b img"
| "and_then (Escaped e) f = Escaped e"

record load_outcome =
  load_result :: "bool result"
  load_image :: HDRImage
  console_error :: "(string \<times> string) option"

definition load :: "externals \<Rightarrow> file_env \<Rightarrow> string \<Rightarrow> HDRImage \<Rightarrow> load_outcome" where
  "load ext env filename img =
     (case and_then (and_then (and_then (and_then
              (load_stb ext env filename img [])
              (load_pfm ext env))
              (load_npy ext env filename))
              (load_exr env))
              (\<lambda>img' errors. try_catch (load_dng ext env img') img' errors
                                (file_extension env = ''dng'')) of
        Continue img' errors \<Rightarrow>
          \<lparr>load_result = Inr False, load_image = img',
           console_error = Some (filename, errors)\<rparr>
      | Returned b img' \<Rightarrow>
          \<lparr>load_result = Inr b, load_image = img', console_error = None\<rparr>
      | Escaped e \<Rightarrow>
          \<lparr>load_result = Inl e, load_image = img, console_error = None\<rparr>)"

section \<open>Save dispatcher\<close>

text \<open>
  The arithmetic of \<^verbatim>\<open>Color4\<close> that \<^verbatim>\<open>save\<close> uses works channel by channel, and every
  sum and product is rounded to binary32 by \<open>rnd\<close>, since the bytes written depend on it.
  \<^verbatim>\<open>LinearToSRGB\<close> and the power function are declared outside this file and are
  parameters, as is the table \<^verbatim>\<open>dither_matrix256\<close> of \<^verbatim>\<open>DitherMatrix256.h\<close>.
\<close>

definition color_mul :: "(real \<Rightarrow> real) \<Rightarrow> Color4 \<Rightarrow> Color4 \<Rightarrow> Color4" where
  "color_mul rnd c d =
     Color4 (rnd (cr c * cr d)) (rnd (cg c * cg d)) (rnd (cb c * cb d)) (rnd (ca c * ca d))"

definition color_add :: "(real \<Rightarrow> real) \<Rightarrow> Color4 \<Rightarrow> Color4 \<Rightarrow> Color4" where
  "color_add rnd c d =
     Color4 (rnd (cr c + cr d)) (rnd (cg c + cg d)) (rnd (cb c + cb d)) (rnd (ca c + ca d))"

definition color_scale :: "(real \<Rightarrow> real) \<Rightarrow> Color4 \<Rightarrow> real \<Rightarrow> Color4" where
  "color_scale rnd c k = Color4 (rnd (cr c * k)) (rnd (cg c * k)) (rnd (cb c * k)) (rnd (ca c * k))"

definition color_max :: "Color4 \<Rightarrow> real \<Rightarrow> Color4" where
  "color_max c k = Color4 (max (cr c) k) (max (cg c) k) (max (cb c) k) (max (ca c) k)"

definition color_min :: "Color4 \<Rightarrow> real \<Rightarrow> Color4" where
  "color_min c k = Color4 (min (cr c) k) (min (cg c) k) (min (cb c) k) (min (ca c) k)"

definition color_pow :: "(real \<Rightarrow> real \<Rightarrow> real) \<Rightarrow> Color4 \<Rightarrow> Color4 \<Rightarrow> Color4" where
  "color_pow powf c d =
     Color4 (powf (cr c) (cr d)) (powf (cg c) (cg d)) (powf (cb c) (cb d)) (powf (ca c) (ca d))"

text \<open>An expression of Eigen that replaces every coefficient of the array.\<close>

definition map_pixels :: "(Color4 \<Rightarrow> Color4) \<Rightarrow> HDRImage \<Rightarrow> HDRImage" where
  "map_pixels f img = img\<lparr>img_pix := \<lambda>x y. f (img_pix img x y)\<rparr>"

record save_externals =
  ext_LinearToSRGB :: "Color4 \<Rightarrow> Color4"
  ext_pow :: "real \<Rightarrow> real \<Rightarrow> real"
  dither_matrix256 :: "nat \<Rightarrow> real"
  save_round :: "real \<Rightarrow> real"

text \<open>
  Lines 538 to 563: the image that is written, a tone-mapped copy or the image itself.
  \<^verbatim>\<open>gammaC\<close> is computed at line 547 and read at line 561 only; with \<open>gamma = 0\<close> its
  coefficients are infinite, and the model has no value for the power of line 561.
\<close>

definition tonemapped ::
  "save_externals \<Rightarrow> HDRImage \<Rightarrow> bool \<Rightarrow> real \<Rightarrow> real \<Rightarrow> bool \<Rightarrow> HDRImage result" where
  "tonemapped sx this hdrFormat gain gamma sRGB =
     (if gain \<noteq> 1 \<or> sRGB \<or> gamma \<noteq> 1 then
        let gainC = Color4 gain gain gain 1;
            imgCopy = this;
            imgCopy1 = (if gain \<noteq> 1
                        then map_pixels (\<lambda>c. color_mul (save_round sx) c gainC) imgCopy
                        else imgCopy)
        in if \<not> hdrFormat then
             (if sRGB then Inr (map_pixels (ext_LinearToSRGB sx) imgCopy1)
              else if gamma \<noteq> 1 then
                bind_result (fdiv 1 gamma) (\<lambda>g.
                  let gammaC = Color4 (save_round sx g) (save_round sx g) (save_round sx g) 1
                  in Inr (map_pixels (\<lambda>c. color_pow (ext_pow sx) c gammaC) imgCopy1))
              else Inr imgCopy1)
           else Inr imgCopy1
      else Inr this)"

text \<open>The conversion of a \<^verbatim>\<open>float\<close> to \<^verbatim>\<open>unsigned char\<close> drops the fraction.\<close>

definition c_trunc :: "real \<Rightarrow> int" where
  "c_trunc v = (if 0 \<le> v then \<lfloor>v\<rfloor> else \<lceil>v\<rceil>)"

definition uchar_of_float :: "real \<Rightarrow> byte" where
  "uchar_of_float v = word_of_int (c_trunc v)"

text \<open>
  Lines 616 to 626: the pixel with the dither added, scaled to 0 to 255 and bounded. The
  quotient by 65536, the difference and the quotient by 255 that give \<^verbatim>\<open>ditherValue\<close>, the
  sum of line 622 and the product of line 626 are floats, each rounded to binary32.
\<close>

definition quantized :: "save_externals \<Rightarrow> bool \<Rightarrow> nat \<Rightarrow> nat \<Rightarrow> Color4 \<Rightarrow> Color4" where
  "quantized sx dither x y c0 =
     (let rnd = save_round sx;
          c = (if dither then
                 let xmod = x mod 256;
                     ymod = y mod 256;
                     ditherValue =
                       rnd (rnd (rnd (dither_matrix256 sx (xmod + ymod * 256) / 65536) - 0.5) / 255)
                 in color_add rnd c0 (Color4 ditherValue ditherValue ditherValue 0)
               else c0)
      in color_min (color_max (color_scale rnd c 255) 0) 255)"

text \<open>Lines 608 to 632: the vector of bytes, three for every pixel.\<close>

definition to_8bit :: "save_externals \<Rightarrow> bool \<Rightarrow> HDRImage \<Rightarrow> HDRImage \<Rightarrow> byte list result" where
  "to_8bit sx dither this img =
     parallel_for 0 (img_height this) (\<lambda>y.
       for_loop [0..<img_width this] (\<lambda>x data.
         let c = quantized sx dither x y (img_pix img x y)
         in Inr (data[3 * x + 3 * y * img_width this + 0 := uchar_of_float (cr c),
                      3 * x + 3 * y * img_width this + 1 := uchar_of_float (cg c),
                      3 * x + 3 * y * img_width this + 2 := uchar_of_float (cb c)])))
       (replicate (img_width this * img_height this * 3) 0)"

text \<open>
  What \<^verbatim>\<open>save\<close> hands to a writer, and what the writer answers: \<open>writer_ok\<close> is the
  result of the codec called, \<open>exr_writer_error\<close> the exception of the OpenEXR writer if it
  throws. \<^verbatim>\<open>img->data()\<close> is the array of the pixels in storage order, four floats each.
\<close>

datatype written =
    Float_file string nat nat "real list"
  | Exr_file nat nat "nat \<Rightarrow> nat \<Rightarrow> Color4"
  | Byte_file string nat nat "byte list"

record save_env =
  save_extension :: string
  writer_ok :: bool
  exr_writer_error :: "string option"

definition image_data :: "HDRImage \<Rightarrow> real list" where
  "image_data img =
     concat (map (\<lambda>y. concat (map (\<lambda>x.
         [cr (img_pix img x y), cg (img_pix img x y), cb (img_pix img x y),
          ca (img_pix img x y)]) [0..<img_width img])) [0..<img_height img])"

text \<open>\<^verbatim>\<open>HDRImage::save\<close>: the result, and the file written if a writer was called.\<close>

definition save ::
  "save_externals \<Rightarrow> save_env \<Rightarrow> HDRImage \<Rightarrow> real \<Rightarrow> real \<Rightarrow> bool \<Rightarrow> bool \<Rightarrow>
   bool result \<times> written option" where
  "save sx env this gain gamma sRGB dither =
     (let ext = save_extension env;
          hdrFormat = (ext = ''hdr'' \<or> ext = ''pfm'' \<or> ext = ''exr'')
      in case tonemapped sx this hdrFormat gain gamma sRGB of
        Inl e \<Rightarrow> (Inl e, None)
      | Inr img \<Rightarrow>
         if ext = ''hdr'' then
           (Inr (writer_ok env),
            Some (Float_file ext (img_width this) (img_height this) (image_data img)))
         else if ext = ''pfm'' then
           (Inr (writer_ok env),
            Some (Float_file ext (img_width this) (img_height this) (image_data img)))
         else if ext = ''exr'' then
           (case exr_writer_error env of
              None \<Rightarrow> (Inr True,
                Some (Exr_file (img_width this) (img_height this) (\<lambda>y x. img_pix img x y)))
            | Some m \<Rightarrow> (Inr False, None))
         else
           (case to_8bit sx dither this img of
              Inl e \<Rightarrow> (Inl e, None)
            | Inr data \<Rightarrow>
                if ext = ''ppm'' \<or> ext = ''png'' \<or> ext = ''bmp'' \<or> ext = ''tga'' \<or>
                   ext = ''jpg'' \<or> ext = ''jpeg''
                then (Inr (writer_ok env),
                      Some (Byte_file ext (img_width this) (img_height this) data))
                else (Inl (Exception
                  ''Could not determine desired file type from extension.''), None)))"

section \<open>Outcomes without exceptions\<close>

text \<open>A result that is not a C++ exception, and a step of \<^verbatim>\<open>load\<close> that neither returns
  \<^verbatim>\<open>false\<close> nor lets an exception escape.\<close>

definition no_exception :: "'a result \<Rightarrow> bool" where
  "no_exception r \<longleftrightarrow> (\<forall>m. r \<noteq> Inl (Exception m))"

definition step_ok :: "step \<Rightarrow> bool" where
  "step_ok st \<longleftrightarrow>
     (case st of Returned b img \<Rightarrow> b | Continue img errors \<Rightarrow> True | Escaped e \<Rightarrow> e = Undefined)"

section \<open>Decodes that fail\<close>

text \<open>
  When the decode of a format fails, and the line the failure leaves in the report. The
  functions read only what the codecs report for the file; they say what the words
  ``the decode fails'' mean for each format, and \<^verbatim>\<open>load\<close> is compared with them below.

  \<^item> stb: the decoder returns no pixels.
  \<^item> PFM: the reader throws, returns no pixels, or returns neither one nor three
    channels.
  \<^item> NPY: the reader fails, the array has neither two nor three dimensions, or it is
    neither an array of floats with one, three or four channels nor an array of bytes
    with four channels.
  \<^item> OpenEXR: the reader throws.
  \<^item> Raw sensor container: the loader fails; or the largest image has a sample width
    other than 12, 14 and 16 bits, has no data, has a negative number of samples, or has
    a number of samples per pixel other than one and three (its samples having been
    read).
\<close>

definition pfm_failure :: "file_env \<Rightarrow> string option" where
  "pfm_failure env =
     (case loadPFMImage env of
        Inl (Exception m) \<Rightarrow> Some m
      | Inl Undefined \<Rightarrow> None
      | Inr (w, h, n, None) \<Rightarrow> Some ''Could not load PFM image.''
      | Inr (w, h, n, Some fd) \<Rightarrow>
          if n = 1 \<or> n = 3 then None
          else Some ''Only 3-channel or 1-channel PFMs are currently supported.'')"

definition npy_channels :: "file_env \<Rightarrow> int" where
  "npy_channels env = (if length (npy_Shape env) = 2 then 1 else int (npy_Shape env ! 2))"

definition npy_failure :: "file_env \<Rightarrow> string option" where
  "npy_failure env =
     (if \<not> npy_LoadNPY_ok env then Some ''Could not load NPY image.''
      else if length (npy_Shape env) \<noteq> 2 \<and> length (npy_Shape env) \<noteq> 3 then
        Some ''NPY not an image.''
      else if npy_ValueType env = NPY_float \<and> npy_channels env \<in> {1, 3, 4} then None
      else if npy_ValueType env = NPY_uint8 \<and> npy_channels env = 4 then None
      else Some ''Only 1- 3- 4-channel float NPYs are currently supported.'')"

definition exr_failure :: "file_env \<Rightarrow> string option" where
  "exr_failure env =
     (case exr_read env of Inl (Exception m) \<Rightarrow> Some m | Inl Undefined \<Rightarrow> None
      | Inr r \<Rightarrow> None)"

definition dng_failure :: "externals \<Rightarrow> file_env \<Rightarrow> string option" where
  "dng_failure ext env =
     (if \<not> LoadDNG_ret env then Some (''Failed to load DNG. '' @ LoadDNG_err env)
      else case find_largest (LoadDNG_images env) of
        Inl e \<Rightarrow> None
      | Inr k \<Rightarrow>
          let dimage = LoadDNG_images env ! k;
              bits = bits_per_sample dimage;
              spp = samples_per_pixel dimage
          in if bits \<noteq> 12 \<and> bits \<noteq> 14 \<and> bits \<noteq> 16 then
               Some (''Error loading DNG: Unsupported bits_per_sample : '' @ to_string spp)
             else if dng_data dimage = [] then Some (ext_what_at ext)
             else if int (dng_width dimage) * (int (dng_height dimage) * spp) < 0 then
               Some (ext_what_resize ext)
             else if spp \<noteq> 1 \<and> spp \<noteq> 3 \<and> \<not> isl (dng_decode ext dimage) then
               Some (''Error loading DNG: Unsupported samples per pixel: '' @ to_string spp)
             else None)"

section \<open>Rounding to binary32\<close>

text \<open>
  The rounding of IEEE 754 that the parameters \<open>ext_round\<close> and \<open>save_round\<close> stand for: to
  the nearest multiple of the quantum, ties to the even multiple. The quantum of \<open>x\<close> is
  \<open>2 ^ (e - 23)\<close> for \<open>2 ^ e \<le> \<bar>x\<bar> < 2 ^ (e + 1)\<close>, and \<open>2 ^ - 149\<close> for subnormal numbers.
  A magnitude beyond the largest finite float has no rounding among the reals.
\<close>

definition round_even :: "real \<Rightarrow> int" where
  "round_even r =
     (let f = \<lfloor>r\<rfloor>; d = r - of_int f
      in if d < 1 / 2 then f else if 1 / 2 < d then f + 1 else if even f then f else f + 1)"

definition binary32 :: "real \<Rightarrow> real" where
  "binary32 x =
     (if x = 0 then 0
      else let e = max (\<lfloor>log 2 \<bar>x\<bar>\<rfloor> - 23) (- 149)
           in of_int (round_even (x / 2 powr of_int e)) * 2 powr of_int e)"

section \<open>Example data\<close>

text \<open>Metadata of a raw image of two samples, used to run the definitions.\<close>

definition example_dng :: DNGImage where
  "example_dng = \<lparr>dng_width = 2, dng_height = 1, bits_per_sample = 16, samples_per_pixel = 1,
     black_level = (\<lambda>_. 100), white_level = (\<lambda>_. 1100),
     active_area = (\<lambda>i. if i = 2 then 1 else if i = 3 then 2 else 0), orientation = 1,
     color_matrix2 = (\<lambda>i j. if i = j then 2 else 0),
     forward_matrix2 = (\<lambda>i j. 0), camera_calibration2 = (\<lambda>i j. 0),
     analog_balance = (\<lambda>_. 1),
     as_shot_neutral = (\<lambda>i. if i = 0 then 1 / 2 else if i = 1 then 1 else 1 / 4),
     dng_data = [0x58, 0x02, 0x4C, 0x04]\<rparr>"

definition example_ext :: externals where
  "example_ext = \<lparr>ext_SRGBToLinear = (\<lambda>c. c), ext_demosaicAHD = (\<lambda>_ _ img. img),
     ext_big_endian = False, ext_uninitialized = (\<lambda>_ _. Color4 0 0 0 0),
     ext_round = binary32, ext_what_at = ''vector::_M_range_check'',
     ext_what_resize = ''vector::_M_default_append''\<rparr>"

definition example_image :: HDRImage where
  "example_image = \<lparr>img_width = 3, img_height = 2, img_pix = (\<lambda>_ _. Color4 1 1 1 1)\<rparr>"

definition unknown_file :: file_env where
  "unknown_file = \<lparr>file_extension = ''bin'', fopen_ok = True,
     stbi_jpeg_test = False, stbi_png_test = False, stbi_bmp_test = False,
     stbi_gif_test = False, stbi_psd_test = False, stbi_pic_test = False,
     stbi_pnm_test = False, stbi_hdr_test = False, stbi_tga_test = False,
     stbi_decode = None, stbi_failure_reason = ''unknown image type'', stbi_is_hdr = False,
     isPFMImage = False, loadPFMImage = Inr (0, 0, 0, None),
     npy_LoadNPY_ok = False, npy_Shape = [], npy_ValueType = NPY_other, npy_Data = [],
     isOpenExrFile = False, exr_read = Inl (Exception ''Cannot read image file.''),
     LoadDNG_ret = False, LoadDNG_images = [], LoadDNG_err = ''Not a DNG.''\<rparr>"

definition example_rgb_dng :: DNGImage where
  "example_rgb_dng = \<lparr>dng_width = 1, dng_height = 1, bits_per_sample = 16, samples_per_pixel = 3,
     black_level = (\<lambda>_. 0), white_level = (\<lambda>_. 65535),
     active_area = (\<lambda>i. if i = 2 \<or> i = 3 then 1 else 0), orientation = 0,
     color_matrix2 = (\<lambda>i j. if i = j then 1 else 0),
     forward_matrix2 = (\<lambda>i j. 0), camera_calibration2 = (\<lambda>i j. 0),
     analog_balance = (\<lambda>_. 1), as_shot_neutral = (\<lambda>_. 1),
     dng_data = [0x00, 0x80, 0x00, 0x00, 0x00, 0x00]\<rparr>"

definition rgb_dng_file :: file_env where
  "rgb_dng_file = unknown_file\<lparr>file_extension := ''dng'', LoadDNG_ret := True,
     LoadDNG_images := [example_rgb_dng]\<rparr>"




text \<open>
  A file that the tests of stb and of PFM accept and that no codec decodes: stb has no
  pixels, the PFM reader returns none, and the one image of the raw container has ten
  bits per sample. And an NPY array of bytes with three channels.
\<close>

definition three_failures_file :: file_env where
  "three_failures_file = unknown_file\<lparr>file_extension := ''dng'', stbi_tga_test := True,
     isPFMImage := True, LoadDNG_ret := True,
     LoadDNG_images := [example_dng\<lparr>bits_per_sample := 10\<rparr>]\<rparr>"

definition rgb_bytes_npy_file :: file_env where
  "rgb_bytes_npy_file = unknown_file\<lparr>file_extension := ''npy'', npy_LoadNPY_ok := True,
     npy_Shape := [2, 3, 3], npy_ValueType := NPY_uint8\<rparr>"

text \<open>
  A table whose entries are all 128, and a pixel. The dither is
  \<open>(128 / 65536 - 1 / 2) / 255 = - 1 / 512\<close>.
\<close>

definition flat_dither :: save_externals where
  "flat_dither = \<lparr>ext_LinearToSRGB = (\<lambda>c. c), ext_pow = (\<lambda>v e. v),
     dither_matrix256 = (\<lambda>_. 128), save_round = binary32\<rparr>"

text \<open>The same with the table entry 64134, for a channel at the boundary of a byte.\<close>

definition boundary_dither :: save_externals where
  "boundary_dither = flat_dither\<lparr>dither_matrix256 := (\<lambda>_. 64134)\<rparr>"

definition png_target :: save_env where
  "png_target = \<lparr>save_extension = ''png'', writer_ok = True, exr_writer_error = None\<rparr>"

definition one_pixel :: HDRImage where
  "one_pixel = \<lparr>img_width = 1, img_height = 1,
     img_pix = (\<lambda>_ _. Color4 (5 / 1024) (1 / 2) 2 (1 / 4))\<rparr>"

section \<open>Properties of the rounding\<close>

lemma two_powr_neg: "(2::real) powr (- real k) = 1 / 2 ^ k"
  by (simp add: powr_minus powr_realpow inverse_eq_divide)

lemma floor_log2_small:
  assumes "1 \<le> \<bar>x::real\<bar> * 2 ^ n" and "\<bar>x\<bar> * 2 ^ n < 2"
  shows "\<lfloor>log 2 \<bar>x\<bar>\<rfloor> = - int n"
proof -
  have p: "0 < \<bar>x\<bar>" using assms(1) by (cases "x = 0") simp_all
  have a: "(2::real) powr of_int (- int n) = 1 / 2 ^ n"
    by (simp only: of_int_minus of_int_of_nat_eq two_powr_neg)
  have b: "(2::real) powr of_int (- int n + 1) = 2 / 2 ^ n"
    by (simp add: powr_diff powr_realpow)
  have "2 powr of_int (- int n) \<le> \<bar>x\<bar> \<and> \<bar>x\<bar> < 2 powr of_int (- int n + 1)"
    unfolding a b using assms by (simp add: field_simps)
  then show ?thesis
    using p by (simp add: floor_log_eq_powr_iff)
qed

lemma floor_log2_big:
  assumes "2 ^ n \<le> \<bar>x::real\<bar>" and "\<bar>x\<bar> < 2 * 2 ^ n"
  shows "\<lfloor>log 2 \<bar>x\<bar>\<rfloor> = int n"
proof -
  have "(0::real) < 2 ^ n" by simp
  with assms(1) have p: "0 < \<bar>x\<bar>" by linarith
  have a: "(2::real) powr of_int (int n) = 2 ^ n"
    by (simp add: powr_realpow)
  have b: "(2::real) powr of_int (int n + 1) = 2 * 2 ^ n"
    by (simp add: powr_add powr_realpow)
  have "2 powr of_int (int n) \<le> \<bar>x\<bar> \<and> \<bar>x\<bar> < 2 powr of_int (int n + 1)"
    unfolding a b using assms by simp
  then show ?thesis
    using p by (simp add: floor_log_eq_powr_iff)
qed

text \<open>
  The rounding of a number below 1 in magnitude, \<open>2 ^ - n \<le> \<bar>x\<bar> < 2 ^ (1 - n)\<close>, and of a
  number from 1 on, \<open>2 ^ n \<le> \<bar>x\<bar> < 2 ^ (n + 1)\<close>: the quantum is \<open>2 ^ - (n + 23)\<close> and
  \<open>2 ^ - (23 - n)\<close>.
\<close>

lemma binary32_small:
  assumes "1 \<le> \<bar>x\<bar> * 2 ^ n" and "\<bar>x\<bar> * 2 ^ n < 2" and "n \<le> 126"
  shows "binary32 x = of_int (round_even (x * 2 ^ (n + 23))) / 2 ^ (n + 23)"
proof -
  have nz: "x \<noteq> 0" using assms(1) by auto
  have e: "max (\<lfloor>log 2 \<bar>x\<bar>\<rfloor> - 23) (- 149) = - int (n + 23)"
    using assms(3) by (simp add: floor_log2_small [OF assms(1,2)])
  have p: "(2::real) powr of_int (- int (n + 23)) = 1 / 2 ^ (n + 23)"
    by (simp only: of_int_minus of_int_of_nat_eq two_powr_neg)
  show ?thesis
    unfolding binary32_def Let_def e p using nz by simp
qed

lemma binary32_big:
  assumes "2 ^ n \<le> \<bar>x\<bar>" and "\<bar>x\<bar> < 2 * 2 ^ n" and "n \<le> 23"
  shows "binary32 x = of_int (round_even (x * 2 ^ (23 - n))) / 2 ^ (23 - n)"
proof -
  have "(0::real) < 2 ^ n" by simp
  with assms(1) have "0 < \<bar>x\<bar>" by linarith
  then have nz: "x \<noteq> 0" by auto
  have e: "max (\<lfloor>log 2 \<bar>x\<bar>\<rfloor> - 23) (- 149) = - int (23 - n)"
    using assms(3) by (simp add: floor_log2_big [OF assms(1,2)])
  have p: "(2::real) powr of_int (- int (23 - n)) = 1 / 2 ^ (23 - n)"
    by (simp only: of_int_minus of_int_of_nat_eq two_powr_neg)
  show ?thesis
    unfolding binary32_def Let_def e p using nz by simp
qed

text \<open>The floats of the examples below are binary32 numbers: the rounding keeps them.\<close>

lemma binary32_zero: "binary32 0 = 0"
  by (simp add: binary32_def)

lemma binary32_fixed_below_one:
  "binary32 (1 / 512) = 1 / 512"
  "binary32 (- (1 / 512)) = - (1 / 512)"
  "binary32 (3 / 1024) = 3 / 1024"
  "binary32 (- (255 / 512)) = - (255 / 512)"
  "binary32 (255 / 512) = 255 / 512"
  "binary32 (765 / 1024) = 765 / 1024"
  by (subst binary32_small [where n = 9], simp_all add: round_even_def)
     (subst binary32_small [where n = 9], simp_all add: round_even_def,
      subst binary32_small [where n = 9], simp_all add: round_even_def,
      subst binary32_small [where n = 2], simp_all add: round_even_def,
      subst binary32_small [where n = 2], simp_all add: round_even_def,
      subst binary32_small [where n = 1], simp_all add: round_even_def)

lemma binary32_fixed_above_one:
  "binary32 1 = 1"
  "binary32 2 = 2"
  "binary32 3 = 3"
  "binary32 6 = 6"
  "binary32 255 = 255"
  "binary32 510 = 510"
  "binary32 (1275 / 1024) = 1275 / 1024"
  "binary32 (1023 / 512) = 1023 / 512"
  "binary32 (255 / 2) = 255 / 2"
  "binary32 (65025 / 512) = 65025 / 512"
  "binary32 (260865 / 512) = 260865 / 512"
  by (subst binary32_big [where n = 0], simp_all add: round_even_def)
     (subst binary32_big [where n = 1], simp_all add: round_even_def,
      subst binary32_big [where n = 1], simp_all add: round_even_def,
      subst binary32_big [where n = 2], simp_all add: round_even_def,
      subst binary32_big [where n = 7], simp_all add: round_even_def,
      subst binary32_big [where n = 8], simp_all add: round_even_def,
      subst binary32_big [where n = 0], simp_all add: round_even_def,
      subst binary32_big [where n = 0], simp_all add: round_even_def,
      subst binary32_big [where n = 6], simp_all add: round_even_def,
      subst binary32_big [where n = 6], simp_all add: round_even_def,
      subst binary32_big [where n = 8], simp_all add: round_even_def)

lemma binary32_fixed_gain:
  "binary32 (1 / 4) = 1 / 4"
  "binary32 (5 / 512) = 5 / 512"
  "binary32 (1 / 128) = 1 / 128"
  "binary32 (511 / 512) = 511 / 512"
  "binary32 4 = 4"
  "binary32 (2047 / 512) = 2047 / 512"
  "binary32 (255 / 128) = 255 / 128"
  "binary32 (130305 / 512) = 130305 / 512"
  "binary32 (521985 / 512) = 521985 / 512"
  by (subst binary32_small [where n = 2], simp_all add: round_even_def)
     (subst binary32_small [where n = 7], simp_all add: round_even_def,
      subst binary32_small [where n = 7], simp_all add: round_even_def,
      subst binary32_small [where n = 1], simp_all add: round_even_def,
      subst binary32_big [where n = 2], simp_all add: round_even_def,
      subst binary32_big [where n = 1], simp_all add: round_even_def,
      subst binary32_big [where n = 0], simp_all add: round_even_def,
      subst binary32_big [where n = 7], simp_all add: round_even_def,
      subst binary32_big [where n = 9], simp_all add: round_even_def)

lemmas binary32_fixed = binary32_zero binary32_fixed_below_one binary32_fixed_above_one
  binary32_fixed_gain

text \<open>Roundings that move the value: a quotient by 255, and a sum that is a tie.\<close>

lemma binary32_boundary:
  "binary32 (32067 / 32768) = 32067 / 32768"
  "binary32 (15683 / 32768) = 15683 / 32768"
  "binary32 (15683 / 8355840) = 8061185 / 4294967296"
  "binary32 (16843009 / 4294967296) = 65793 / 16777216"
  "binary32 (16777215 / 16777216) = 16777215 / 16777216"
  by (subst binary32_small [where n = 1], simp_all add: round_even_def)
     (subst binary32_small [where n = 2], simp_all add: round_even_def,
      subst binary32_small [where n = 10], simp_all add: round_even_def,
      subst binary32_small [where n = 8], simp_all add: round_even_def,
      subst binary32_small [where n = 1], simp_all add: round_even_def)

section \<open>Properties of the bit unpacker\<close>

subsection \<open>Loops that fill an array\<close>

lemma for_loop_append:
  "for_loop (xs @ ys) body s = bind_result (for_loop xs body s) (for_loop ys body)"
proof (induction xs arbitrary: s)
  case Nil
  show ?case by simp
next
  case (Cons i xs)
  show ?case by (cases "body i s") (simp_all add: Cons.IH)
qed

lemma for_loop_single: "for_loop [i] body s = body i s"
  by (cases "body i s") simp_all

lemma row_fill:
  assumes "\<forall>x<j. g (b + x) = Inr (g' (b + x))" and "b + j \<le> length s"
  shows "for_loop [0..<j] (\<lambda>x img. bind_result (g (b + x)) (\<lambda>v. Inr (img[b + x := v]))) s
         = Inr (take b s @ map g' [b..<b + j] @ drop (b + j) s)"
  using assms
proof (induction j)
  case 0
  then show ?case by simp
next
  case (Suc j)
  from Suc.prems(2) have lt: "b + j < length s" by simp
  have d: "drop (b + j) s = s ! (b + j) # drop (Suc (b + j)) s"
    using lt by (simp add: Cons_nth_drop_Suc)
  have "(take b s @ map g' [b..<b + j] @ drop (b + j) s)[b + j := g' (b + j)]
        = take b s @ map g' [b..<b + j] @ g' (b + j) # drop (Suc (b + j)) s"
    using lt by (simp add: d list_update_append min_def)
  with Suc show ?case
    by (simp add: for_loop_append)
qed

lemma grid_index_less:
  assumes "y < h" and "x < w"
  shows "y * w + x < w * (h::nat)"
proof -
  have "y * w + x < Suc y * w" using assms(2) by simp
  also have "\<dots> \<le> h * w" using assms(1) by (intro mult_le_mono1) simp
  finally show ?thesis by (simp add: mult.commute)
qed

lemma rows_fill:
  assumes g: "\<forall>n<w * h. g n = Inr (g' n)" and len: "length s = w * h" and k: "k \<le> h"
  shows "for_loop [0..<k]
           (\<lambda>y. for_loop [0..<w] (\<lambda>x img. bind_result (g (y * w + x)) (\<lambda>v. Inr (img[y * w + x := v]))))
           s
         = Inr (map g' [0..<k * w] @ drop (k * w) s)"
  using k
proof (induction k)
  case 0
  show ?case by simp
next
  case (Suc k)
  let ?sk = "map g' [0..<k * w] @ drop (k * w) s"
  have kh: "k < h" using Suc.prems by simp
  have bound: "k * w + w \<le> w * h"
    using mult_le_mono1 [of "Suc k" h w] kh by (simp add: mult.commute)
  have row: "\<forall>x<w. g (k * w + x) = Inr (g' (k * w + x))"
    using g kh by (simp add: grid_index_less)
  have lensk: "k * w + w \<le> length ?sk"
    using bound len by simp
  have step: "for_loop [0..<w] (\<lambda>x img. bind_result (g (k * w + x)) (\<lambda>v. Inr (img[k * w + x := v]))) ?sk
        = Inr (take (k * w) ?sk @ map g' [k * w..<k * w + w] @ drop (k * w + w) ?sk)"
    by (rule row_fill [OF row lensk])
  have t: "take (k * w) ?sk = map g' [0..<k * w]" by simp
  have d: "drop (k * w + w) ?sk = drop (Suc k * w) s"
    by (simp add: add.commute)
  have m: "map g' [0..<k * w] @ map g' [k * w..<k * w + w] = map g' [0..<Suc k * w]"
  proof -
    have "[0..<k * w + w] = [0..<k * w] @ [k * w..<k * w + w]"
      by (rule upt_add_eq_append) simp
    then show ?thesis by (simp add: add.commute)
  qed
  let ?F = "\<lambda>y. for_loop [0..<w] (\<lambda>x img. bind_result (g (y * w + x)) (\<lambda>v. Inr (img[y * w + x := v])))"
  have ih: "for_loop [0..<k] ?F s = Inr ?sk"
    using Suc.IH kh by simp
  have "for_loop [0..<Suc k] ?F s = bind_result (for_loop [0..<k] ?F s) (for_loop [k] ?F)"
    by (simp add: for_loop_append)
  also have "\<dots> = ?F k ?sk"
    by (simp only: ih bind_result.simps for_loop_single)
  also have "\<dots> = Inr (take (k * w) ?sk @ map g' [k * w..<k * w + w] @ drop (k * w + w) ?sk)"
    by (rule step)
  also have "\<dots> = Inr (map g' [0..<Suc k * w] @ drop (Suc k * w) s)"
    by (simp only: t d m [symmetric] append_assoc)
  finally show ?case .
qed

lemma grid_fill:
  assumes "\<forall>n<w * h. g n = Inr (g' n)" and "length s = w * h"
  shows "parallel_for 0 h
           (\<lambda>y. for_loop [0..<w] (\<lambda>x img. bind_result (g (y * w + x)) (\<lambda>v. Inr (img[y * w + x := v]))))
           s
         = Inr (map g' [0..<w * h])"
  using rows_fill [OF assms, of h] assms(2) by (simp add: parallel_for_def mult.commute)

lemma ushort_of_bytes_of_ushort:
  "ushort_of_bytes be (bytes_of_ushort be v ! 0) (bytes_of_ushort be v ! Suc 0) = v"
  unfolding ushort_of_bytes_def bytes_of_ushort_def
  by (cases be; simp) (rule bit_word_eqI; auto simp: bit_simps)+

lemma length_bytes_of_ushort: "length (bytes_of_ushort be v) = 2"
  by (simp add: bytes_of_ushort_def)

lemma pack16_Cons: "pack16 be (v # vs) = bytes_of_ushort be v @ pack16 be vs"
  by (simp add: pack16_def)

lemma length_pack16: "length (pack16 be vs) = 2 * length vs"
  by (induction vs) (simp_all add: pack16_Cons length_bytes_of_ushort, simp add: pack16_def)

lemma pack16_nth:
  "n < length vs \<Longrightarrow>
     pack16 be vs ! (2 * n) = bytes_of_ushort be (vs ! n) ! 0 \<and>
     pack16 be vs ! (2 * n + 1) = bytes_of_ushort be (vs ! n) ! 1"
proof (induction vs arbitrary: n)
  case Nil
  then show ?case by simp
next
  case (Cons v vs)
  show ?case
  proof (cases n)
    case 0
    then show ?thesis
      by (simp add: pack16_Cons nth_append length_bytes_of_ushort)
  next
    case (Suc m)
    with Cons.prems have "m < length vs" by simp
    from Cons.IH [OF this] show ?thesis
      using Suc by (simp add: pack16_Cons nth_append length_bytes_of_ushort)
  qed
qed

lemma read_byte_nat:
  "read_byte data (int k) = (if k < length data then Inr (data ! k) else Inl Undefined)"
  by (simp add: read_byte_def)

lemma read_ushort_pack16:
  assumes "n < length vs"
  shows "read_ushort be (pack16 be vs) n = Inr (vs ! n)"
proof -
  have lt: "2 * n < length (pack16 be vs)" "2 * n + 1 < length (pack16 be vs)"
    using assms by (simp_all add: length_pack16)
  have "read_ushort be (pack16 be vs) n
        = Inr (ushort_of_bytes be (pack16 be vs ! (2 * n)) (pack16 be vs ! (2 * n + 1)))"
    unfolding read_ushort_def read_bytes.simps read_byte_nat
    using lt by simp
  then show ?thesis
    using pack16_nth [OF assms, of be] by (simp add: ushort_of_bytes_of_ushort)
qed

lemma length_vector_resize: "length (vector_resize n v) = n"
  by (simp add: vector_resize_def)

lemma decode16_sample_plain:
  assumes "n < width * height" and "length data = 2 * (width * height)"
  shows "decode16_sample be data False n
         = Inr (real (unat (ushort_of_bytes be (data ! (2 * n)) (data ! (2 * n + 1)))))"
proof -
  have "2 * n < length data" "2 * n + 1 < length data"
    using assms by simp_all
  then show ?thesis
    unfolding decode16_sample_def read_ushort_def read_bytes.simps read_byte_nat
    by simp
qed

text \<open>
  C4. For every buffer of \<open>width * height\<close> 16-bit samples, decoding without endian
  swap returns an array of \<open>width * height\<close> values whose element \<open>i\<close> is the
  unsigned short made of the bytes at offsets \<open>2 * i\<close> and \<open>2 * i + 1\<close>; decoding the
  packed form of a list of 16-bit integers returns exactly these integers.
\<close>

theorem decode16_identity:
  "(length data = 2 * (width * height) \<longrightarrow>
      decode16BitToFloat be image0 data width height False
        = Inr (map (\<lambda>i. real (unat (ushort_of_bytes be (data ! (2 * i)) (data ! (2 * i + 1)))))
               [0..<width * height])) \<and>
   (length ws = width * height \<longrightarrow>
      decode16BitToFloat be image0 (pack16 be ws) width height False
        = Inr (map (\<lambda>v. real (unat v)) ws))"
proof (intro conjI impI)
  assume len: "length data = 2 * (width * height)"
  have "\<forall>n<width * height. decode16_sample be data False n
          = Inr (real (unat (ushort_of_bytes be (data ! (2 * n)) (data ! (2 * n + 1)))))"
    using len by (simp add: decode16_sample_plain)
  then show "decode16BitToFloat be image0 data width height False
        = Inr (map (\<lambda>i. real (unat (ushort_of_bytes be (data ! (2 * i)) (data ! (2 * i + 1)))))
               [0..<width * height])"
    unfolding decode16BitToFloat_def
    by (rule grid_fill [OF _ length_vector_resize])
next
  assume len: "length ws = width * height"
  have s: "\<forall>n<width * height.
             decode16_sample be (pack16 be ws) False n = Inr (real (unat (ws ! n)))"
    using len by (simp add: decode16_sample_def read_ushort_pack16)
  have "decode16BitToFloat be image0 (pack16 be ws) width height False
          = Inr (map (\<lambda>n. real (unat (ws ! n))) [0..<width * height])"
    unfolding decode16BitToFloat_def
    by (rule grid_fill [OF s length_vector_resize])
  also have "map (\<lambda>n. real (unat (ws ! n))) [0..<width * height] = map (\<lambda>v. real (unat v)) ws"
    by (rule nth_equalityI) (simp_all add: len)
  finally show "decode16BitToFloat be image0 (pack16 be ws) width height False
        = Inr (map (\<lambda>v. real (unat v)) ws)" .
qed

text \<open>The witness: a little-endian and a big-endian host, two samples each.\<close>

theorem decode16_identity_witness:
  "decode16BitToFloat False [] [0x34, 0x12, 0xFF, 0xFF] 2 1 False = Inr [0x1234, 65535] \<and>
   decode16BitToFloat True [7] (pack16 True [0x1234, 0xFFFF]) 1 2 False = Inr [0x1234, 65535]"
  using decode16_identity [where data = "[0x34, 0x12, 0xFF, 0xFF]" and width = 2 and height = 1
      and be = False and ?image0.0 = "[]" and ws = "[]"]
    decode16_identity [where data = "[]" and width = 1 and height = 2
      and be = True and ?image0.0 = "[7]" and ws = "[0x1234, 0xFFFF]"]
  by (simp add: upt_rec ushort_of_bytes_def)

subsection \<open>Golden vectors\<close>

lemma replicate_numeral: "replicate (numeral k) x = x # replicate (pred_numeral k) x"
  by (simp add: numeral_eq_Suc)

text \<open>
  C3 (as stated, refuted). Decoding the three bytes \<open>0xBC, 0x2A, 0x13\<close> as two 12-bit
  samples without endian swap does not give \<open>0xABC, 0x123\<close>.
\<close>

theorem decode12_golden_counterexample:
  "decode12BitToFloat [] [0xBC, 0x2A, 0x13] 2 1 False \<noteq> Inr [0xABC, 0x123]"
  by (simp add: decode12BitToFloat_def parallel_for_def decode12_sample_def read_byte_def
      vector_resize_def offsets12_def bitShifts12_def upt_rec Let_def replicate_numeral)

text \<open>
  C3 (amended). The unpacker reads the first sample from the first byte and the high
  nibble of the second, and the second sample from the low nibble of the second byte and
  the third byte: the buffer \<open>0xBC, 0x2A, 0x13\<close> decodes to \<open>0xBC2, 0xA13\<close>, and the
  samples \<open>0xABC, 0x123\<close> are what the buffer \<open>0xAB, 0xC1, 0x23\<close> decodes to.
\<close>

theorem decode12_golden:
  "decode12BitToFloat [] [0xBC, 0x2A, 0x13] 2 1 False = Inr [0xBC2, 0xA13] \<and>
   decode12BitToFloat [] [0xAB, 0xC1, 0x23] 2 1 False = Inr [0xABC, 0x123]"
  by (simp add: decode12BitToFloat_def parallel_for_def decode12_sample_def read_byte_def
      vector_resize_def offsets12_def bitShifts12_def upt_rec Let_def replicate_numeral)


section \<open>Properties of the colour matrix builder\<close>











section \<open>Properties of the raw developer\<close>

subsection \<open>Loops over the pixels of an image\<close>

lemma row_pixels:
  assumes step: "\<And>x dev. x < w \<Longrightarrow> img_width dev = img_width s \<Longrightarrow> img_height dev = img_height s \<Longrightarrow>
                   img_pix dev x y = img_pix s x y \<Longrightarrow>
                   body x dev = Inr (set_pixel dev x y (f x))"
    and "j \<le> w"
  shows "for_loop [0..<j] body s
         = Inr (s\<lparr>img_pix := \<lambda>x' y'. if y' = y \<and> x' < j then f x' else img_pix s x' y'\<rparr>)"
  using assms(2)
proof (induction j)
  case 0
  show ?case by simp
next
  case (Suc j)
  let ?sj = "s\<lparr>img_pix := \<lambda>x' y'. if y' = y \<and> x' < j then f x' else img_pix s x' y'\<rparr>"
  have ih: "for_loop [0..<j] body s = Inr ?sj" using Suc by simp
  have b: "body j ?sj = Inr (set_pixel ?sj j y (f j))"
    using Suc.prems by (intro step) simp_all
  have e: "set_pixel ?sj j y (f j)
           = s\<lparr>img_pix := \<lambda>x' y'. if y' = y \<and> x' < Suc j then f x' else img_pix s x' y'\<rparr>"
    by (auto simp: set_pixel_def fun_eq_iff less_Suc_eq)
  have "for_loop [0..<Suc j] body s = bind_result (for_loop [0..<j] body s) (for_loop [j] body)"
    by (simp add: for_loop_append)
  also have "\<dots> = body j ?sj"
    by (simp only: ih bind_result.simps for_loop_single)
  finally show ?case by (simp only: b e)
qed

lemma grid_pixels:
  assumes step: "\<And>x y dev. x < img_width img \<Longrightarrow> y < img_height img \<Longrightarrow>
                   img_width dev = img_width img \<Longrightarrow> img_height dev = img_height img \<Longrightarrow>
                   img_pix dev x y = img_pix img x y \<Longrightarrow>
                   body x y dev = Inr (set_pixel dev x y (f x y))"
  shows "parallel_for 0 (img_height img) (\<lambda>y. for_loop [0..<img_width img] (\<lambda>x. body x y)) img
         = Inr (img\<lparr>img_pix := \<lambda>x y. if x < img_width img \<and> y < img_height img then f x y
                                  else img_pix img x y\<rparr>)"
proof -
  let ?w = "img_width img"
  let ?F = "\<lambda>y. for_loop [0..<?w] (\<lambda>x. body x y)"
  have "k \<le> img_height img \<Longrightarrow>
        for_loop [0..<k] ?F img
          = Inr (img\<lparr>img_pix := \<lambda>x y. if x < ?w \<and> y < k then f x y else img_pix img x y\<rparr>)" for k
  proof (induction k)
    case 0
    show ?case by simp
  next
    case (Suc k)
    let ?sk = "img\<lparr>img_pix := \<lambda>x y. if x < ?w \<and> y < k then f x y else img_pix img x y\<rparr>"
    have ih: "for_loop [0..<k] ?F img = Inr ?sk" using Suc by simp
    have row: "for_loop [0..<?w] (\<lambda>x. body x k) ?sk
          = Inr (?sk\<lparr>img_pix := \<lambda>x' y'. if y' = k \<and> x' < ?w then f x' k else img_pix ?sk x' y'\<rparr>)"
    proof (rule row_pixels [where w = ?w])
      fix x and dev :: HDRImage
      assume "x < ?w" "img_width dev = img_width ?sk" "img_height dev = img_height ?sk"
        "img_pix dev x k = img_pix ?sk x k"
      then show "body x k dev = Inr (set_pixel dev x k (f x k))"
        using Suc.prems by (intro step) simp_all
    qed simp
    have e: "?sk\<lparr>img_pix := \<lambda>x' y'. if y' = k \<and> x' < ?w then f x' k else img_pix ?sk x' y'\<rparr>
          = img\<lparr>img_pix := \<lambda>x y. if x < ?w \<and> y < Suc k then f x y else img_pix img x y\<rparr>"
      by (auto simp: fun_eq_iff less_Suc_eq)
    have "for_loop [0..<Suc k] ?F img = bind_result (for_loop [0..<k] ?F img) (for_loop [k] ?F)"
      by (simp add: for_loop_append)
    also have "\<dots> = ?F k ?sk"
      by (simp only: ih bind_result.simps for_loop_single)
    finally show ?case by (simp only: row e)
  qed
  from this [of "img_height img"] show ?thesis
    by (simp add: parallel_for_def)
qed



text \<open>
  Equal levels. With the black and the white level both 100, the samples 600 and 1100
  and the white balance \<open>(1 / 2, 1, 1 / 4)\<close>, every sample is above the black level: \<open>v\<close> is
  1 and the pixel handed to the demosaic kernel is \<open>(2, 1, 4, 1)\<close>.
\<close>

lemma develop_normalize_equal_levels:
  "develop_normalize [600, 1100] 100 (inv_scale 100 100) (Vector3f (1 / 2) 1 (1 / 4))
     \<lparr>img_width = 2, img_height = 1, img_pix = \<lambda>_ _. Color4 0 0 0 0\<rparr>
   = Inr \<lparr>img_width = 2, img_height = 1,
          img_pix = \<lambda>x y. if x < 2 \<and> y < 1 then Color4 2 1 4 1 else Color4 0 0 0 0\<rparr>"
  by (simp add: develop_normalize_def inv_scale_def scale_and_clamp_def parallel_for_def
      read_float_def upt_rec set_pixel_def Let_def fun_eq_iff)







section \<open>Properties of the load dispatcher\<close>

subsection \<open>Three samples per pixel\<close>

lemma scale_in_place:
  "j \<le> length hdr \<Longrightarrow>
   for_loop [0..<j] (\<lambda>i hdr'. Inr (hdr'[i := hdr' ! i * k])) hdr
   = Inr (map (\<lambda>v. v * (k::real)) (take j hdr) @ drop j hdr)"
proof (induction j)
  case 0
  show ?case by simp
next
  case (Suc j)
  then have lt: "j < length hdr" by simp
  let ?s = "map (\<lambda>v. v * k) (take j hdr) @ drop j hdr"
  have ih: "for_loop [0..<j] (\<lambda>i hdr'. Inr (hdr'[i := hdr' ! i * k])) hdr = Inr ?s"
    using Suc by simp
  have d: "drop j hdr = hdr ! j # drop (Suc j) hdr"
    using lt by (simp add: Cons_nth_drop_Suc)
  have n: "?s ! j = hdr ! j" using lt by (simp add: nth_append)
  have u: "?s[j := hdr ! j * k] = map (\<lambda>v. v * k) (take (Suc j) hdr) @ drop (Suc j) hdr"
    using lt by (simp add: d list_update_append take_Suc_conv_app_nth)
  have "for_loop [0..<Suc j] (\<lambda>i hdr'. Inr (hdr'[i := hdr' ! i * k])) hdr
        = bind_result (for_loop [0..<j] (\<lambda>i hdr'. Inr (hdr'[i := hdr' ! i * k])) hdr)
            (for_loop [j] (\<lambda>i hdr'. Inr (hdr'[i := hdr' ! i * k])))"
    by (simp add: for_loop_append)
  also have "\<dots> = Inr (?s[j := ?s ! j * k])"
    by (simp only: ih bind_result.simps for_loop_single)
  finally show ?case by (simp only: n u)
qed

lemma three_index_less:
  assumes "(x::nat) < w" and "(y::nat) < h"
  shows "3 * y * w + x < w * (h * 3)"
proof -
  have "y * w + x < w * h" by (rule grid_index_less [OF assms(2,1)])
  then show ?thesis by simp
qed

lemma dng_three_samples_eq:
  assumes "length raw = w * (h * 3)"
  shows "dng_three_samples img raw w h invScale
         = Inr ((resize w h img)\<lparr>img_pix := \<lambda>x y.
                  if x < img_width (resize w h img) \<and> y < img_height (resize w h img)
                  then Color4 (raw ! (3 * y * w + x) * invScale * invScale + 0)
                              (raw ! (3 * y * w + x) * invScale * invScale + 1)
                              (raw ! (3 * y * w + x) * invScale * invScale + 2) 1
                  else img_pix (resize w h img) x y\<rparr>)"
proof -
  have s: "parallel_for 0 (length raw) (\<lambda>i hdr'. Inr (hdr'[i := hdr' ! i * invScale])) raw
           = Inr (map (\<lambda>v. v * invScale) raw)"
    using scale_in_place [of "length raw" raw invScale] by (simp add: parallel_for_def)
  have wd: "img_width (resize w h img) = w" and ht: "img_height (resize w h img) = h"
    by (simp_all add: resize_def)
  have p: "parallel_for 0 (img_height (resize w h img)) (\<lambda>y.
            for_loop [0..<img_width (resize w h img)] (\<lambda>x img'.
              let index = 3 * y * w + x in
              bind_result (read_float (map (\<lambda>v. v * invScale) raw) index) (\<lambda>s.
                Inr (set_pixel img' x y
                  (Color4 (s * invScale + 0) (s * invScale + 1) (s * invScale + 2) 1)))))
            (resize w h img)
         = Inr ((resize w h img)\<lparr>img_pix := \<lambda>x y.
                  if x < img_width (resize w h img) \<and> y < img_height (resize w h img)
                  then Color4 (raw ! (3 * y * w + x) * invScale * invScale + 0)
                              (raw ! (3 * y * w + x) * invScale * invScale + 1)
                              (raw ! (3 * y * w + x) * invScale * invScale + 2) 1
                  else img_pix (resize w h img) x y\<rparr>)"
  proof (rule grid_pixels)
    fix x y and dev :: HDRImage
    assume "x < img_width (resize w h img)" "y < img_height (resize w h img)"
    then have "3 * y * w + x < length raw"
      using assms three_index_less [of x w y h] by (simp add: wd ht)
    then show "(let index = 3 * y * w + x in
              bind_result (read_float (map (\<lambda>v. v * invScale) raw) index) (\<lambda>s.
                Inr (set_pixel dev x y
                  (Color4 (s * invScale + 0) (s * invScale + 1) (s * invScale + 2) 1))))
          = Inr (set_pixel dev x y
               (Color4 (raw ! (3 * y * w + x) * invScale * invScale + 0)
                       (raw ! (3 * y * w + x) * invScale * invScale + 1)
                       (raw ! (3 * y * w + x) * invScale * invScale + 2) 1))"
      by (simp add: read_float_def Let_def)
  qed
  show ?thesis
    unfolding dng_three_samples_def s bind_result.simps
    using p by (simp only: wd ht)
qed


lemma decode_example_rgb: "dng_decode example_ext example_rgb_dng = Inr [32768, 0, 0]"
  by (simp add: dng_decode_def example_ext_def example_rgb_dng_def decode16BitToFloat_def parallel_for_def
      decode16_sample_def read_ushort_def read_byte_def ushort_of_bytes_def vector_resize_def
      upt_rec Let_def replicate_numeral)

lemma find_largest_single: "find_largest [d] = Inr 0"
  by (simp add: find_largest_def)

lemma find_orientation_single: "find_orientation [d] = orientation d"
  by (simp add: find_orientation_def)

text \<open>The decoders return as many samples as they were asked for.\<close>

lemma for_loop_preserves:
  assumes "\<And>i s s'. body i s = Inr s' \<Longrightarrow> P s \<Longrightarrow> P s'"
    and "for_loop xs body s = Inr s'" and "P s"
  shows "P s'"
  using assms(2,3)
proof (induction xs arbitrary: s)
  case Nil
  then show ?case by simp
next
  case (Cons i xs)
  show ?case
  proof (cases "body i s")
    case (Inl e)
    with Cons.prems show ?thesis by simp
  next
    case (Inr t)
    with Cons.prems have "for_loop xs body t = Inr s'" by simp
    moreover have "P t" using assms(1) [OF Inr Cons.prems(2)] .
    ultimately show ?thesis by (rule Cons.IH)
  qed
qed

lemma bind_result_Inr:
  "bind_result r f = Inr y \<Longrightarrow> \<exists>v. r = Inr v \<and> f v = Inr y"
  by (cases r) simp_all

lemma fill_preserves_length:
  assumes "parallel_for 0 h (\<lambda>y. for_loop [0..<w] (\<lambda>x img.
             bind_result (g (y * w + x)) (\<lambda>v. Inr (img[y * w + x := v])))) s = Inr s'"
  shows "length s' = length s"
proof -
  have inner: "length t' = length t"
    if "for_loop [0..<w] (\<lambda>x img.
             bind_result (g (y * w + x)) (\<lambda>v. Inr (img[y * w + x := v]))) t = Inr t'"
    for y t t'
  proof -
    show ?thesis
      by (rule for_loop_preserves [where P = "\<lambda>u. length u = length t", OF _ that])
        (auto dest!: bind_result_Inr)
  qed
  show ?thesis
    using assms unfolding parallel_for_def
    by (rule for_loop_preserves [where P = "\<lambda>u. length u = length s", rotated])
      (auto dest: inner)
qed


lemma length_decode12:
  "decode12BitToFloat image0 data w h swap = Inr out \<Longrightarrow> length out = w * h"
  unfolding decode12BitToFloat_def
  by (drule fill_preserves_length) (simp add: vector_resize_def)

lemma length_decode14:
  "decode14BitToFloat image0 data w h swap = Inr out \<Longrightarrow> length out = w * h"
  unfolding decode14BitToFloat_def
  by (drule fill_preserves_length) (simp add: vector_resize_def)

lemma length_decode16:
  "decode16BitToFloat be image0 data w h swap = Inr out \<Longrightarrow> length out = w * h"
  unfolding decode16BitToFloat_def
  by (drule fill_preserves_length) (simp add: vector_resize_def)

lemma length_dng_decode:
  assumes "dng_decode ext dimg = Inr raw"
  shows "length raw = dng_width dimg * nat (int (dng_height dimg) * samples_per_pixel dimg)"
  using assms
  by (auto simp: dng_decode_def Let_def split: if_splits
      dest!: bind_result_Inr length_decode12 length_decode14 length_decode16)


text \<open>
  C9 (amended). For a DNG image with three samples per pixel the demosaic kernel is not
  called: the pixel \<open>(x, y)\<close> of the developed image has channel \<open>c\<close> equal to
  \<open>raw[3 * y * w + x] * invScale * invScale + c\<close> and alpha 1, where \<open>raw\<close> is the
  unpacked sample array and \<open>invScale = 1 / 2 ^ bits_per_sample\<close>; the crop and the
  orientation follow. The image is the widest of the file, found at index \<open>k\<close>.
\<close>

theorem three_samples_path:
  assumes "LoadDNG_ret env"
    and "find_largest (LoadDNG_images env) = Inr k"
    and "samples_per_pixel (LoadDNG_images env ! k) = 3"
    and "dng_decode ext (LoadDNG_images env ! k) = Inr raw"
  shows "load_dng ext env img =
    (let dimg = LoadDNG_images env ! k;
         w = dng_width dimg;
         h = dng_height dimg;
         invScale = 1 / 2 ^ nat (bits_per_sample dimg);
         developed = \<lparr>img_width = w, img_height = h,
           img_pix = \<lambda>x y. if x < w \<and> y < h
             then Color4 (raw ! (3 * y * w + x) * invScale * invScale + 0)
                         (raw ! (3 * y * w + x) * invScale * invScale + 1)
                         (raw ! (3 * y * w + x) * invScale * invScale + 2) 1
             else img_pix img x y\<rparr>
     in bind_result (dng_crop developed dimg) (\<lambda>cropped.
          Inr (apply_orientation (find_orientation (LoadDNG_images env)) cropped)))"
proof -
  let ?d = "LoadDNG_images env ! k"
  let ?w = "dng_width ?d" and ?h = "dng_height ?d"
  let ?inv = "1 / 2 ^ nat (bits_per_sample ?d) :: real"
  let ?developed = "\<lparr>img_width = ?w, img_height = ?h,
           img_pix = \<lambda>x y. if x < ?w \<and> y < ?h
             then Color4 (raw ! (3 * y * ?w + x) * ?inv * ?inv + 0)
                         (raw ! (3 * y * ?w + x) * ?inv * ?inv + 1)
                         (raw ! (3 * y * ?w + x) * ?inv * ?inv + 2) 1
             else img_pix img x y\<rparr>"
  have e: "(resize ?w ?h img)\<lparr>img_pix := \<lambda>x y.
                  if x < img_width (resize ?w ?h img) \<and> y < img_height (resize ?w ?h img)
                  then Color4 (raw ! (3 * y * ?w + x) * ?inv * ?inv + 0)
                              (raw ! (3 * y * ?w + x) * ?inv * ?inv + 1)
                              (raw ! (3 * y * ?w + x) * ?inv * ?inv + 2) 1
                  else img_pix (resize ?w ?h img) x y\<rparr> = ?developed"
    by (cases img) (simp add: resize_def cong: if_cong)
  have len: "length raw = ?w * (?h * 3)"
    using length_dng_decode [OF assms(4)] assms(3) by (simp add: nat_mult_distrib)
  have t: "dng_three_samples img raw ?w ?h ?inv = Inr ?developed"
    using dng_three_samples_eq [OF len, of img ?inv] unfolding e .
  have n: "\<not> \<not> LoadDNG_ret env" using assms(1) by simp
  show ?thesis
    unfolding load_dng_def Let_def
    by (simp only: n if_False assms(2,3,4) bind_result.simps simp_thms if_True t)
qed


lemma rgb_dng_file_simps:
  "LoadDNG_ret rgb_dng_file" "LoadDNG_images rgb_dng_file = [example_rgb_dng]"
  "ext_big_endian example_ext = False"
  by (simp_all add: rgb_dng_file_def unknown_file_def example_ext_def)

theorem three_samples_path_witness:
  "LoadDNG_ret rgb_dng_file \<and>
   find_largest (LoadDNG_images rgb_dng_file) = Inr 0 \<and>
   samples_per_pixel (LoadDNG_images rgb_dng_file ! 0) = 3 \<and>
   dng_decode example_ext (LoadDNG_images rgb_dng_file ! 0) = Inr [32768, 0, 0] \<and>
   (\<exists>img'. load_dng example_ext rgb_dng_file example_image = Inr img' \<and>
      img_width img' = 1 \<and> img_height img' = 1 \<and>
      img_pix img' 0 0 = Color4 (1 / 131072) (131073 / 131072) (262145 / 131072) 1)"
proof -
  have h1: "LoadDNG_ret rgb_dng_file"
    by (simp add: rgb_dng_file_simps)
  have h2: "find_largest (LoadDNG_images rgb_dng_file) = Inr 0"
    by (simp add: rgb_dng_file_simps find_largest_single)
  have h3: "samples_per_pixel (LoadDNG_images rgb_dng_file ! 0) = 3"
    by (simp add: rgb_dng_file_simps example_rgb_dng_def)
  have h4: "dng_decode example_ext (LoadDNG_images rgb_dng_file ! 0)
            = Inr [32768, 0, 0]"
    by (simp add: rgb_dng_file_simps decode_example_rgb)
  show ?thesis
    using h1 h2 h3 h4 three_samples_path [OF h1 h2 h3 h4, of example_image]
    by (simp add: rgb_dng_file_simps find_orientation_single example_rgb_dng_def Let_def
        dng_crop_def clamp_def block_def apply_orientation_def ORIENTATION_TOPRIGHT_def
        ORIENTATION_BOTRIGHT_def ORIENTATION_BOTLEFT_def ORIENTATION_LEFTTOP_def
        ORIENTATION_RIGHTTOP_def ORIENTATION_RIGHTBOT_def ORIENTATION_LEFTBOT_def)
qed

lemma load_rgb_example:
  "load_dng example_ext rgb_dng_file example_image
   = Inr \<lparr>img_width = 1, img_height = 1,
          img_pix = \<lambda>x y. if x < 1 \<and> y < 1
            then Color4 (1 / 131072) (131073 / 131072) (262145 / 131072) 1
            else Color4 1 1 1 1\<rparr>"
proof -
  have t: "dng_three_samples example_image [32768, 0, 0] (Suc 0) (Suc 0) (1 / 65536)
           = Inr ((resize (Suc 0) (Suc 0) example_image)\<lparr>img_pix := \<lambda>x y.
                  if x < img_width (resize (Suc 0) (Suc 0) example_image) \<and>
                     y < img_height (resize (Suc 0) (Suc 0) example_image)
                  then Color4 ([32768, 0, 0] ! (3 * y * Suc 0 + x) * (1 / 65536) * (1 / 65536) + 0)
                              ([32768, 0, 0] ! (3 * y * Suc 0 + x) * (1 / 65536) * (1 / 65536) + 1)
                              ([32768, 0, 0] ! (3 * y * Suc 0 + x) * (1 / 65536) * (1 / 65536) + 2) 1
                  else img_pix (resize (Suc 0) (Suc 0) example_image) x y\<rparr>)"
    by (rule dng_three_samples_eq) simp
  have "load_dng example_ext rgb_dng_file example_image
        = bind_result (dng_three_samples example_image [32768, 0, 0] (Suc 0) (Suc 0) (1 / 65536))
            (\<lambda>img1. bind_result (dng_crop img1 example_rgb_dng) (\<lambda>img2.
               Inr (apply_orientation (orientation example_rgb_dng) img2)))"
    unfolding load_dng_def
    by (simp add: rgb_dng_file_simps find_largest_single find_orientation_single
        decode_example_rgb Let_def)
       (simp add: example_rgb_dng_def)
  also have "\<dots> = Inr \<lparr>img_width = 1, img_height = 1,
          img_pix = \<lambda>x y. if x < 1 \<and> y < 1
            then Color4 (1 / 131072) (131073 / 131072) (262145 / 131072) 1
            else Color4 1 1 1 1\<rparr>"
    unfolding t
    by (simp add: example_rgb_dng_def resize_def example_image_def
        dng_crop_def clamp_def block_def apply_orientation_def ORIENTATION_TOPRIGHT_def
        ORIENTATION_BOTRIGHT_def ORIENTATION_BOTLEFT_def ORIENTATION_LEFTTOP_def
        ORIENTATION_RIGHTTOP_def ORIENTATION_RIGHTBOT_def ORIENTATION_LEFTBOT_def fun_eq_iff)
  finally show ?thesis .
qed

text \<open>
  C9 (as stated, refuted). With one pixel whose first sample is 32768 at 16 bits, the red
  channel is not \<open>raw[0] * invScale + 0 = 1 / 2\<close>: the scale has been applied twice.
\<close>

theorem three_samples_counterexample:
  "dng_decode example_ext example_rgb_dng = Inr [32768, 0, 0] \<and>
   \<not> isl (load_dng example_ext rgb_dng_file example_image) \<and>
   cr (img_pix (projr (load_dng example_ext rgb_dng_file example_image)) 0 0) = 1 / 131072 \<and>
   cr (img_pix (projr (load_dng example_ext rgb_dng_file example_image)) 0 0)
     \<noteq> [32768, 0, 0] ! (3 * 0 * 1 + 0) * (1 / 2 ^ nat (bits_per_sample example_rgb_dng)) + 0"
  by (simp add: load_rgb_example rgb_dng_file_simps decode_example_rgb)
     (simp add: example_rgb_dng_def)



subsection \<open>The depth map of a 16-bit PNG\<close>





text \<open>
  The rounding decides the colour. For the depths 0.001 to 0.017 the depth 0.009 lies
  in the middle: over the reals the index is the rounding of 127.5, which is 128; in
  binary32 the quotient is \<open>16711679 / 2 ^ 17\<close>, just below, and the index is 127.
\<close>

lemma rounding_decides_index:
  "turbo_entry binary32 (binary32 (9 / 1000)) (binary32 (1 / 1000))
     (binary32 (binary32 (17 / 1000) - binary32 (1 / 1000))) = Inr (turboRGBf ! 127) \<and>
   turbo_entry (\<lambda>v. v) (9 / 1000) (1 / 1000) (17 / 1000 - 1 / 1000) = Inr (turboRGBf ! 128)"
proof -
  have a: "binary32 (1 / 1000) = 8589935 / 2 ^ 33"
    by (subst binary32_small [where n = 10]) (simp_all add: round_even_def)
  have p: "binary32 (9 / 1000) = 9663676 / 2 ^ 30"
    by (subst binary32_small [where n = 7]) (simp_all add: round_even_def)
  have b: "binary32 (17 / 1000) = 9126806 / 2 ^ 29"
    by (subst binary32_small [where n = 6]) (simp_all add: round_even_def)
  have d: "binary32 (9126806 / 2 ^ 29 - 8589935 / 2 ^ 33) = 8589935 / 2 ^ 29"
    by (subst binary32_small [where n = 6]) (simp_all add: round_even_def)
  have s: "binary32 (9663676 / 2 ^ 30 - 8589935 / 2 ^ 33) = 8589934 / 2 ^ 30"
    by (subst binary32_small [where n = 7]) (simp_all add: round_even_def)
  have m: "binary32 (255 * (8589934 / 2 ^ 30)) = 8556380 / 2 ^ 22"
    by (subst binary32_big [where n = 1]) (simp_all add: round_even_def)
  have q: "binary32 (8556380 / 2 ^ 22 / (8589935 / 2 ^ 29)) = 16711679 / 2 ^ 17"
    by (subst binary32_big [where n = 6]) (simp_all add: round_even_def)
  have "turbo_entry binary32 (binary32 (9 / 1000)) (binary32 (1 / 1000))
     (binary32 (binary32 (17 / 1000) - binary32 (1 / 1000))) = Inr (turboRGBf ! 127)"
    unfolding turbo_entry_def a p b d s m q Let_def
    by (simp add: c_round_def)
  moreover have "turbo_entry (\<lambda>v. v) (9 / 1000) (1 / 1000) (17 / 1000 - 1 / 1000)
     = Inr (turboRGBf ! 128)"
    by (simp add: turbo_entry_def c_round_def)
  ultimately show ?thesis by simp
qed








subsection \<open>NPY arrays of bytes\<close>





subsection \<open>Orientation\<close>








subsection \<open>Total failure\<close>

lemma no_exception_simps [simp]:
  "no_exception (Inr x)" "no_exception (Inl Undefined)" "\<not> no_exception (Inl (Exception m))"
  by (simp_all add: no_exception_def)

lemma no_exception_bind:
  "no_exception r \<Longrightarrow> (\<And>v. no_exception (f v)) \<Longrightarrow> no_exception (bind_result r f)"
  by (cases r) (simp_all add: no_exception_def)

lemma no_exception_for_loop:
  "(\<And>i s. no_exception (body i s)) \<Longrightarrow> no_exception (for_loop xs body s)"
proof (induction xs arbitrary: s)
  case Nil
  show ?case by simp
next
  case (Cons i xs)
  show ?case
    unfolding for_loop.simps
    by (rule no_exception_bind) (simp_all add: Cons)
qed

lemma no_exception_parallel_for:
  "(\<And>i s. no_exception (body i s)) \<Longrightarrow> no_exception (parallel_for a b body s)"
  unfolding parallel_for_def by (rule no_exception_for_loop)

lemma no_exception_read_float [simp]: "no_exception (read_float data i)"
  by (simp add: read_float_def)

lemma no_exception_read_data16 [simp]: "no_exception (read_data16 data i)"
  by (simp add: read_data16_def)

lemma no_exception_turbo_entry [simp]: "no_exception (turbo_entry rnd p m d)"
  by (simp add: turbo_entry_def Let_def)

lemmas no_exception_intros = no_exception_bind no_exception_for_loop no_exception_parallel_for

lemma no_exception_scan_min_max: "no_exception (scan_min_max data w h)"
  unfolding scan_min_max_def
  by (intro no_exception_intros) (auto split: prod.splits intro!: no_exception_bind)

lemma no_exception_copyPixelsFromArray:
  assumes "n = 1 \<or> n = 3 \<or> n = 4"
  shows "no_exception (copyPixelsFromArray rnd S img data w h n c f)"
proof (cases "n = 1")
  case True
  then show ?thesis
    unfolding copyPixelsFromArray_def
    by (auto simp: Let_def no_exception_scan_min_max split: prod.splits
        intro!: no_exception_intros)
next
  case False
  with assms show ?thesis
    unfolding copyPixelsFromArray_def
    by (auto simp: Let_def intro!: no_exception_intros)
qed

lemma no_exception_png16_depth: "no_exception (png16_depth rnd data16 count)"
  unfolding png16_depth_def
  by (auto simp: Let_def intro!: no_exception_intros)


lemma step_ok_simps [simp]:
  "step_ok (Returned b img) = b" "step_ok (Continue img errors)"
  "step_ok (Escaped e) = (e = Undefined)"
  by (simp_all add: step_ok_def)

lemma step_ok_of_result:
  "no_exception r \<Longrightarrow>
   step_ok (case r of Inr img' \<Rightarrow> Returned True img' | Inl e \<Rightarrow> Escaped e)"
  by (cases r) (auto simp: no_exception_def intro: exn.exhaust)

lemma step_ok_try_catch: "step_ok (try_catch body img errors report)"
  by (simp add: try_catch_def split: sum.splits exn.splits)

lemma try_catch_Continue:
  "try_catch body img errors report = Continue img' errors' \<Longrightarrow> img' = resize 0 0 img"
  by (simp add: try_catch_def split: sum.splits exn.splits)

lemma step_ok_and_then:
  "step_ok st \<Longrightarrow> (\<And>img errors. step_ok (f img errors)) \<Longrightarrow> step_ok (and_then st f)"
  by (cases st) simp_all

lemma and_then_Continue:
  "and_then st f = Continue img' errors' \<Longrightarrow>
   \<exists>img errors. st = Continue img errors \<and> f img errors = Continue img' errors'"
  by (cases st) simp_all

lemma step_ok_load_stb: "step_ok (load_stb ext env filename img errors)"
proof (cases "isSTBImage env")
  case False
  then show ?thesis by (simp add: load_stb_def)
next
  case True
  show ?thesis
  proof (cases "stbi_decode env")
    case None
    with True show ?thesis by (simp add: load_stb_def)
  next
    case (Some d)
    have a: "no_exception (copyPixelsFromArray (ext_round ext) (ext_SRGBToLinear ext)
               (resize (stb_w d) (stb_h d) img) (stb_float_data d) (stb_w d) (stb_h d) 4
               (\<not> stbi_is_hdr env) False)"
      by (rule no_exception_copyPixelsFromArray) simp
    have b: "stb_n d = 1 \<Longrightarrow>
             no_exception (bind_result
               (png16_depth (ext_round ext) (stb_data16 d) (stb_w d * stb_h d)) (\<lambda>data.
               copyPixelsFromArray (ext_round ext) (ext_SRGBToLinear ext)
                 (resize (stb_w d) (stb_h d) img)
                 data (stb_w d) (stb_h d) (stb_n d) False True))"
      by (intro no_exception_bind no_exception_png16_depth no_exception_copyPixelsFromArray)
        simp
    show ?thesis
      using True Some step_ok_of_result [OF a] b [THEN step_ok_of_result]
      by (simp add: load_stb_def)
  qed
qed

lemma step_ok_load_pfm: "step_ok (load_pfm ext env img errors)"
  by (simp add: load_pfm_def step_ok_try_catch)

lemma step_ok_load_npy: "step_ok (load_npy ext env filename img errors)"
  by (simp add: load_npy_def step_ok_try_catch)

lemma step_ok_load_exr: "step_ok (load_exr env img errors)"
  by (simp add: load_exr_def step_ok_try_catch)

lemma load_never_throws: "no_exception (load_result (load ext env filename img))"
proof -
  let ?last = "\<lambda>img' errors. try_catch (load_dng ext env img') img' errors
                                (file_extension env = ''dng'')"
  let ?st = "and_then (and_then (and_then (and_then
              (load_stb ext env filename img [])
              (load_pfm ext env))
              (load_npy ext env filename))
              (load_exr env)) ?last"
  have ok: "step_ok ?st"
    by (intro step_ok_and_then step_ok_load_stb step_ok_load_pfm step_ok_load_npy
        step_ok_load_exr step_ok_try_catch)
  then show ?thesis
    by (cases ?st) (simp_all add: load_def no_exception_def)
qed

lemma resize_resize [simp]: "resize w h (resize w' h' img) = resize w h img"
  by (simp add: resize_def)

lemma load_stb_failure:
  assumes "isSTBImage env \<longrightarrow> stbi_decode env = None"
  shows "load_stb ext env filename img errors
         = Continue img
             (errors @ (if isSTBImage env then TAB @ stbi_failure_reason env @ NL else []))"
  using assms by (simp add: load_stb_def)

lemma load_pfm_failure:
  assumes "isPFMImage env \<longrightarrow> pfm_failure env = Some m"
  shows "load_pfm ext env img errors
         = Continue (if isPFMImage env then resize 0 0 img else img)
             (errors @ (if isPFMImage env then TAB @ m @ NL else []))"
proof (cases "isPFMImage env")
  case False
  then show ?thesis by (simp add: load_pfm_def)
next
  case True
  with assms have "pfm_failure env = Some m" by simp
  then have "bind_result (loadPFMImage env) (\<lambda>(w, h, n, float_data).
             case float_data of
               Some fd \<Rightarrow>
                 if n = 3 \<or> n = 1 then
                   copyPixelsFromArray (ext_round ext) (ext_SRGBToLinear ext) (resize w h img)
                     fd w h n False True
                 else Inl (Exception
                   ''Only 3-channel or 1-channel PFMs are currently supported.'')
             | None \<Rightarrow> Inl (Exception ''Could not load PFM image.'')) = Inl (Exception m)"
    by (auto simp: pfm_failure_def split: sum.splits exn.splits prod.splits option.splits
        if_splits)
  with True show ?thesis by (simp add: load_pfm_def try_catch_def)
qed

lemma load_npy_failure:
  assumes "name_ends filename ''.npy'' \<longrightarrow> npy_failure env = Some m"
  shows "load_npy ext env filename img errors
         = Continue (if name_ends filename ''.npy'' then resize 0 0 img else img)
             (errors @ (if name_ends filename ''.npy'' then TAB @ m @ NL else []))"
proof (cases "name_ends filename ''.npy''")
  case False
  then show ?thesis by (simp add: load_npy_def)
next
  case True
  with assms have "npy_failure env = Some m" by simp
  then have "(if \<not> npy_LoadNPY_ok env then Inl (Exception ''Could not load NPY image.'')
           else if length (npy_Shape env) < 2 \<or> length (npy_Shape env) > 3 then
             Inl (Exception ''NPY not an image.'')
           else
             let w = npy_Shape env ! 1;
                 h = npy_Shape env ! 0;
                 n = (if length (npy_Shape env) = 2 then 1 else int (npy_Shape env ! 2))
             in if (n = 3 \<or> n = 4 \<or> n = 1) \<and> npy_ValueType env = NPY_float then
                  copyPixelsFromArray (ext_round ext) (ext_SRGBToLinear ext) (resize w h img)
                    (npy_Data env) w h n False False
                else if n \<noteq> 4 \<or> npy_ValueType env \<noteq> NPY_uint8 then
                  Inl (Exception ''Only 1- 3- 4-channel float NPYs are currently supported.'')
                else Inr img) = Inl (Exception m)"
    by (auto simp: npy_failure_def npy_channels_def Let_def split: if_splits)
  with True show ?thesis by (simp add: load_npy_def try_catch_def)
qed

lemma load_exr_failure:
  assumes "isOpenExrFile env \<longrightarrow> exr_failure env = Some m"
  shows "load_exr env img errors
         = Continue (if isOpenExrFile env then resize 0 0 img else img)
             (errors @ (if isOpenExrFile env then TAB @ m @ NL else []))"
proof (cases "isOpenExrFile env")
  case False
  then show ?thesis by (simp add: load_exr_def)
next
  case True
  with assms have "exr_failure env = Some m" by simp
  then have "exr_read env = Inl (Exception m)"
    by (auto simp: exr_failure_def split: sum.splits exn.splits)
  with True show ?thesis by (simp add: load_exr_def try_catch_def)
qed

lemma dng_decode_failure:
  "bits_per_sample d \<noteq> 12 \<Longrightarrow> bits_per_sample d \<noteq> 14 \<Longrightarrow> bits_per_sample d \<noteq> 16 \<Longrightarrow>
   dng_decode ext d = Inl (Exception
     (''Error loading DNG: Unsupported bits_per_sample : '' @ to_string (samples_per_pixel d)))"
  "bits_per_sample d = 12 \<or> bits_per_sample d = 14 \<or> bits_per_sample d = 16 \<Longrightarrow>
   dng_data d = [] \<Longrightarrow> dng_decode ext d = Inl (Exception (ext_what_at ext))"
  "bits_per_sample d = 12 \<or> bits_per_sample d = 14 \<or> bits_per_sample d = 16 \<Longrightarrow>
   dng_data d \<noteq> [] \<Longrightarrow> int (dng_width d) * (int (dng_height d) * samples_per_pixel d) < 0 \<Longrightarrow>
   dng_decode ext d = Inl (Exception (ext_what_resize ext))"
  by (auto simp: dng_decode_def Let_def)

lemma load_dng_failure:
  assumes "dng_failure ext env = Some m"
  shows "load_dng ext env img = Inl (Exception m)"
proof (cases "LoadDNG_ret env")
  case False
  with assms show ?thesis by (simp add: dng_failure_def load_dng_def)
next
  case True
  with assms obtain k where k: "find_largest (LoadDNG_images env) = Inr k"
    by (auto simp: dng_failure_def split: sum.splits)
  let ?d = "LoadDNG_images env ! k"
  let ?bits = "bits_per_sample ?d" and ?spp = "samples_per_pixel ?d"
  consider (bits) "?bits \<noteq> 12" "?bits \<noteq> 14" "?bits \<noteq> 16"
    | (empty) "?bits = 12 \<or> ?bits = 14 \<or> ?bits = 16" "dng_data ?d = []"
    | (negative) "?bits = 12 \<or> ?bits = 14 \<or> ?bits = 16" "dng_data ?d \<noteq> []"
        "int (dng_width ?d) * (int (dng_height ?d) * ?spp) < 0"
    | (spp) "?bits = 12 \<or> ?bits = 14 \<or> ?bits = 16" "dng_data ?d \<noteq> []"
        "\<not> int (dng_width ?d) * (int (dng_height ?d) * ?spp) < 0"
    by blast
  then show ?thesis
  proof cases
    case bits
    from assms True k bits
    have "m = ''Error loading DNG: Unsupported bits_per_sample : '' @ to_string ?spp"
      by (simp add: dng_failure_def Let_def)
    with True k dng_decode_failure(1) [OF bits, of ext] show ?thesis
      by (simp add: load_dng_def Let_def)
  next
    case empty
    from assms True k empty have "m = ext_what_at ext"
      by (auto simp: dng_failure_def Let_def)
    with True k dng_decode_failure(2) [OF empty, of ext] show ?thesis
      by (simp add: load_dng_def Let_def)
  next
    case negative
    from assms True k negative have "m = ext_what_resize ext"
      by (auto simp: dng_failure_def Let_def)
    with True k dng_decode_failure(3) [OF negative, of ext] show ?thesis
      by (simp add: load_dng_def Let_def)
  next
    case spp
    from assms True k spp
    have f: "?spp \<noteq> 1" "?spp \<noteq> 3" "\<not> isl (dng_decode ext ?d)"
      "m = ''Error loading DNG: Unsupported samples per pixel: '' @ to_string ?spp"
      by (auto simp: dng_failure_def Let_def split: if_splits)
    from f(3) obtain hdr where "dng_decode ext ?d = Inr hdr"
      by (cases "dng_decode ext ?d") simp_all
    with True k f(1,2,4) show ?thesis
      by (simp add: load_dng_def Let_def)
  qed
qed

text \<open>
  C6. When every format whose test accepts the file fails to decode it, and the raw
  sensor container, which has no test of its own, fails too, \<^verbatim>\<open>load\<close> returns \<^verbatim>\<open>false\<close>: no
  exception leaves the call, the image is resized to 0 by 0, and the report names the
  file and holds one line for every format whose test accepted it, in the order of the
  tests, and the line of the raw sensor container only for the extension \<open>dng\<close>. A
  format whose test rejects the file puts no condition on it and leaves no line.
\<close>

theorem load_total_failure:
  assumes "isSTBImage env \<longrightarrow> stbi_decode env = None"
    and "isPFMImage env \<longrightarrow> pfm_failure env = Some pfm_error"
    and "name_ends filename ''.npy'' \<longrightarrow> npy_failure env = Some npy_error"
    and "isOpenExrFile env \<longrightarrow> exr_failure env = Some exr_error"
    and "dng_failure ext env = Some dng_error"
  shows "load ext env filename img =
        \<lparr>load_result = Inr False, load_image = resize 0 0 img,
         console_error = Some (filename,
           (if isSTBImage env then TAB @ stbi_failure_reason env @ NL else []) @
           (if isPFMImage env then TAB @ pfm_error @ NL else []) @
           (if name_ends filename ''.npy'' then TAB @ npy_error @ NL else []) @
           (if isOpenExrFile env then TAB @ exr_error @ NL else []) @
           (if file_extension env = ''dng'' then TAB @ dng_error @ NL else []))\<rparr> \<and>
      is_empty_image (load_image (load ext env filename img))"
proof -
  have d: "try_catch (load_dng ext env img') img' errors (file_extension env = ''dng'')
           = Continue (resize 0 0 img')
               (if file_extension env = ''dng'' then errors @ TAB @ dng_error @ NL else errors)"
    for img' errors
    by (simp add: load_dng_failure [OF assms(5)] try_catch_def)
  have e: "load ext env filename img =
        \<lparr>load_result = Inr False, load_image = resize 0 0 img,
         console_error = Some (filename,
           (if isSTBImage env then TAB @ stbi_failure_reason env @ NL else []) @
           (if isPFMImage env then TAB @ pfm_error @ NL else []) @
           (if name_ends filename ''.npy'' then TAB @ npy_error @ NL else []) @
           (if isOpenExrFile env then TAB @ exr_error @ NL else []) @
           (if file_extension env = ''dng'' then TAB @ dng_error @ NL else []))\<rparr>"
    unfolding load_def load_stb_failure [OF assms(1)] and_then.simps
      load_pfm_failure [OF assms(2)] load_npy_failure [OF assms(3)]
      load_exr_failure [OF assms(4)] d
    by simp
  show ?thesis
    unfolding e by (simp add: is_empty_image_def resize_def)
qed

lemma string_of_one: "to_string 1 = ''1''"
  by code_simp

theorem load_total_failure_witness:
  "\<not> isSTBImage unknown_file \<and> \<not> isPFMImage unknown_file \<and>
   \<not> name_ends ''noise.bin'' ''.npy'' \<and> \<not> isOpenExrFile unknown_file \<and>
   dng_failure example_ext unknown_file = Some ''Failed to load DNG. Not a DNG.'' \<and>
   load example_ext unknown_file ''noise.bin'' example_image =
     \<lparr>load_result = Inr False,
      load_image = \<lparr>img_width = 0, img_height = 0, img_pix = \<lambda>_ _. Color4 1 1 1 1\<rparr>,
      console_error = Some (''noise.bin'', [])\<rparr> \<and>
   isSTBImage three_failures_file \<and> stbi_decode three_failures_file = None \<and>
   isPFMImage three_failures_file \<and>
   loadPFMImage three_failures_file = Inr (0, 0, 0, None) \<and>
   pfm_failure three_failures_file = Some ''Could not load PFM image.'' \<and>
   dng_failure example_ext three_failures_file =
     Some ''Error loading DNG: Unsupported bits_per_sample : 1'' \<and>
   load example_ext three_failures_file ''shot.dng'' example_image =
     \<lparr>load_result = Inr False,
      load_image = \<lparr>img_width = 0, img_height = 0, img_pix = \<lambda>_ _. Color4 1 1 1 1\<rparr>,
      console_error = Some (''shot.dng'',
        TAB @ ''unknown image type'' @ NL @ TAB @ ''Could not load PFM image.'' @ NL @
        TAB @ ''Error loading DNG: Unsupported bits_per_sample : 1'' @ NL)\<rparr> \<and>
   name_ends ''array.npy'' ''.npy'' \<and>
   npy_failure rgb_bytes_npy_file
     = Some ''Only 1- 3- 4-channel float NPYs are currently supported.'' \<and>
   load example_ext rgb_bytes_npy_file ''array.npy'' example_image =
     \<lparr>load_result = Inr False,
      load_image = \<lparr>img_width = 0, img_height = 0, img_pix = \<lambda>_ _. Color4 1 1 1 1\<rparr>,
      console_error = Some (''array.npy'',
        TAB @ ''Only 1- 3- 4-channel float NPYs are currently supported.'' @ NL)\<rparr> \<and>
   is_empty_image (load_image (load example_ext unknown_file ''noise.bin'' example_image))"
proof -
  have u: "\<not> isSTBImage unknown_file" "\<not> isPFMImage unknown_file"
    "\<not> name_ends ''noise.bin'' ''.npy''" "\<not> isOpenExrFile unknown_file"
    "file_extension unknown_file \<noteq> ''dng''"
    by (simp_all add: unknown_file_def isSTBImage_def name_ends_def)
  have ud: "dng_failure example_ext unknown_file = Some ''Failed to load DNG. Not a DNG.''"
    by (simp add: dng_failure_def unknown_file_def)
  have t: "isSTBImage three_failures_file" "stbi_decode three_failures_file = None"
    "isPFMImage three_failures_file" "loadPFMImage three_failures_file = Inr (0, 0, 0, None)"
    "\<not> name_ends ''shot.dng'' ''.npy''" "\<not> isOpenExrFile three_failures_file"
    "file_extension three_failures_file = ''dng''"
    "stbi_failure_reason three_failures_file = ''unknown image type''"
    by (simp_all add: three_failures_file_def unknown_file_def isSTBImage_def name_ends_def)
  have tp: "pfm_failure three_failures_file = Some ''Could not load PFM image.''"
    by (simp add: pfm_failure_def t)
  have td: "dng_failure example_ext three_failures_file =
     Some ''Error loading DNG: Unsupported bits_per_sample : 1''"
    by (simp add: dng_failure_def three_failures_file_def unknown_file_def find_largest_def
        example_dng_def string_of_one)
  have n: "\<not> isSTBImage rgb_bytes_npy_file" "\<not> isPFMImage rgb_bytes_npy_file"
    "name_ends ''array.npy'' ''.npy''" "\<not> isOpenExrFile rgb_bytes_npy_file"
    "file_extension rgb_bytes_npy_file \<noteq> ''dng''"
    by (simp_all add: rgb_bytes_npy_file_def unknown_file_def isSTBImage_def name_ends_def)
  have np: "npy_failure rgb_bytes_npy_file
     = Some ''Only 1- 3- 4-channel float NPYs are currently supported.''"
    by (simp add: npy_failure_def npy_channels_def rgb_bytes_npy_file_def)
  have nd: "dng_failure example_ext rgb_bytes_npy_file = Some ''Failed to load DNG. Not a DNG.''"
    by (simp add: dng_failure_def rgb_bytes_npy_file_def unknown_file_def)
  have r: "resize 0 0 example_image
           = \<lparr>img_width = 0, img_height = 0, img_pix = \<lambda>_ _. Color4 1 1 1 1\<rparr>"
    by (simp add: resize_def example_image_def)
  have a: "load example_ext unknown_file ''noise.bin'' example_image =
     \<lparr>load_result = Inr False,
      load_image = \<lparr>img_width = 0, img_height = 0, img_pix = \<lambda>_ _. Color4 1 1 1 1\<rparr>,
      console_error = Some (''noise.bin'', [])\<rparr> \<and>
     is_empty_image (load_image (load example_ext unknown_file ''noise.bin'' example_image))"
    using load_total_failure [where ext = example_ext and env = unknown_file
        and filename = "''noise.bin''" and img = example_image
        and pfm_error = "[]" and npy_error = "[]" and exr_error = "[]", OF _ _ _ _ ud]
    by (simp add: u r is_empty_image_def)
  have b: "load example_ext three_failures_file ''shot.dng'' example_image =
     \<lparr>load_result = Inr False,
      load_image = \<lparr>img_width = 0, img_height = 0, img_pix = \<lambda>_ _. Color4 1 1 1 1\<rparr>,
      console_error = Some (''shot.dng'',
        TAB @ ''unknown image type'' @ NL @ TAB @ ''Could not load PFM image.'' @ NL @
        TAB @ ''Error loading DNG: Unsupported bits_per_sample : 1'' @ NL)\<rparr>"
    using load_total_failure [where ext = example_ext and env = three_failures_file
        and filename = "''shot.dng''" and img = example_image
        and npy_error = "[]" and exr_error = "[]", OF _ _ _ _ td, of "''Could not load PFM image.''"]
    by (simp add: t tp r)
  have c: "load example_ext rgb_bytes_npy_file ''array.npy'' example_image =
     \<lparr>load_result = Inr False,
      load_image = \<lparr>img_width = 0, img_height = 0, img_pix = \<lambda>_ _. Color4 1 1 1 1\<rparr>,
      console_error = Some (''array.npy'',
        TAB @ ''Only 1- 3- 4-channel float NPYs are currently supported.'' @ NL)\<rparr>"
    using load_total_failure [where ext = example_ext and env = rgb_bytes_npy_file
        and filename = "''array.npy''" and img = example_image
        and pfm_error = "[]" and exr_error = "[]", OF _ _ _ _ nd,
        of "''Only 1- 3- 4-channel float NPYs are currently supported.''"]
    by (simp add: n np r)
  from u(1-4) ud a t(1-4) tp td b n(3) np c show ?thesis
    by (simp add: is_empty_image_def)
qed


section \<open>Properties of the save dispatcher\<close>

lemma update3:
  assumes "n + 3 \<le> length s"
  shows "s[n + 0 := a, n + 1 := b, n + 2 := c] = take n s @ [a, b, c] @ drop (n + 3) s"
proof (rule nth_equalityI)
  show "length (s[n + 0 := a, n + 1 := b, n + 2 := c])
        = length (take n s @ [a, b, c] @ drop (n + 3) s)"
    using assms by simp
next
  fix i
  assume "i < length (s[n + 0 := a, n + 1 := b, n + 2 := c])"
  then have i: "i < length s" by simp
  consider "i < n" | "i = n" | "i = n + 1" | "i = n + 2" | "n + 3 \<le> i" by linarith
  then show "s[n + 0 := a, n + 1 := b, n + 2 := c] ! i
             = (take n s @ [a, b, c] @ drop (n + 3) s) ! i"
  proof cases
    case 1
    then show ?thesis using i by (simp add: nth_append)
  next
    case 2
    then show ?thesis using i assms by (simp add: nth_append)
  next
    case 3
    then show ?thesis using i assms by (simp add: nth_append)
  next
    case 4
    then show ?thesis using i assms by (simp add: nth_append)
  next
    case 5
    then have "i - n = Suc (Suc (Suc (i - n - 3)))" by simp
    then show ?thesis using 5 i assms
      by (simp add: nth_append)
  qed
qed

lemma row_fill3:
  assumes "b + 3 * j \<le> length s"
  shows "for_loop [0..<j] (\<lambda>x d. Inr (d[3 * x + b + 0 := q0 x, 3 * x + b + 1 := q1 x,
                                        3 * x + b + 2 := q2 x])) s
         = Inr (take b s @ concat (map (\<lambda>x. [q0 x, q1 x, q2 x]) [0..<j]) @ drop (b + 3 * j) s)"
  using assms
proof (induction j)
  case 0
  show ?case by simp
next
  case (Suc j)
  let ?body = "\<lambda>x d. Inr (d[3 * x + b + 0 := q0 x, 3 * x + b + 1 := q1 x, 3 * x + b + 2 := q2 x])"
  let ?C = "concat (map (\<lambda>x. [q0 x, q1 x, q2 x]) [0..<j])"
  let ?sj = "take b s @ ?C @ drop (b + 3 * j) s"
  have lenC: "length ?C = 3 * j"
    by (induction j) simp_all
  have ih: "for_loop [0..<j] ?body s = Inr ?sj" using Suc by simp
  have len: "(3 * j + b) + 3 \<le> length ?sj" using Suc.prems by (simp add: lenC)
  have t: "take (3 * j + b) ?sj = take b s @ ?C"
    using Suc.prems by (simp add: lenC)
  have d: "drop (3 * j + b + 3) ?sj = drop (b + 3 * Suc j) s"
    using Suc.prems by (simp add: lenC add.commute add.left_commute)
  have "for_loop [0..<Suc j] ?body s = bind_result (for_loop [0..<j] ?body s) (for_loop [j] ?body)"
    by (simp add: for_loop_append)
  also have "\<dots> = Inr (?sj[3 * j + b + 0 := q0 j, 3 * j + b + 1 := q1 j, 3 * j + b + 2 := q2 j])"
    by (simp only: ih bind_result.simps for_loop_single)
  also have "\<dots> = Inr (take (3 * j + b) ?sj @ [q0 j, q1 j, q2 j] @ drop (3 * j + b + 3) ?sj)"
    by (simp only: update3 [OF len])
  also have "\<dots> = Inr (take b s @ concat (map (\<lambda>x. [q0 x, q1 x, q2 x]) [0..<Suc j])
                         @ drop (b + 3 * Suc j) s)"
    by (simp only: t d) simp
  finally show ?case .
qed


lemma length_concat_triples:
  "length (concat (map (\<lambda>x. [q0 x, q1 x, q2 x]) [0..<j])) = 3 * j"
  by (induction j) simp_all

lemma length_concat_rows:
  "length (concat (map (\<lambda>y. concat (map (\<lambda>x. [q0 x y, q1 x y, q2 x y]) [0..<w])) [0..<k]))
   = 3 * k * w"
  by (induction k) (simp_all add: length_concat_triples algebra_simps)

lemma rows_fill3:
  assumes len: "length s = w * h * 3" and k: "k \<le> h"
  shows "for_loop [0..<k]
           (\<lambda>y. for_loop [0..<w] (\<lambda>x d. Inr (d[3 * x + 3 * y * w + 0 := q0 x y,
                                                 3 * x + 3 * y * w + 1 := q1 x y,
                                                 3 * x + 3 * y * w + 2 := q2 x y])))
           s
         = Inr (concat (map (\<lambda>y. concat (map (\<lambda>x. [q0 x y, q1 x y, q2 x y]) [0..<w])) [0..<k])
                @ drop (3 * k * w) s)"
  using k
proof (induction k)
  case 0
  show ?case by simp
next
  case (Suc k)
  let ?F = "\<lambda>y. for_loop [0..<w] (\<lambda>x d. Inr (d[3 * x + 3 * y * w + 0 := q0 x y,
                                                 3 * x + 3 * y * w + 1 := q1 x y,
                                                 3 * x + 3 * y * w + 2 := q2 x y]))"
  let ?R = "\<lambda>k. concat (map (\<lambda>y. concat (map (\<lambda>x. [q0 x y, q1 x y, q2 x y]) [0..<w])) [0..<k])"
  let ?sk = "?R k @ drop (3 * k * w) s"
  have kh: "Suc k \<le> h" using Suc.prems .
  have bound: "3 * k * w + 3 * w \<le> w * h * 3"
    using mult_le_mono1 [OF kh, of "3 * w"] by (simp add: algebra_simps)
  have ih: "for_loop [0..<k] ?F s = Inr ?sk" using Suc by simp
  have lensk: "3 * k * w + 3 * w \<le> length ?sk"
    using bound len by (simp add: length_concat_rows)
  have t: "take (3 * k * w) ?sk = ?R k" by (simp add: length_concat_rows)
  have d: "drop (3 * k * w + 3 * w) ?sk = drop (3 * Suc k * w) s"
    by (simp add: length_concat_rows algebra_simps)
  have "for_loop [0..<Suc k] ?F s = bind_result (for_loop [0..<k] ?F s) (for_loop [k] ?F)"
    by (simp add: for_loop_append)
  also have "\<dots> = ?F k ?sk"
    by (simp only: ih bind_result.simps for_loop_single)
  also have "\<dots> = Inr (take (3 * k * w) ?sk
                        @ concat (map (\<lambda>x. [q0 x k, q1 x k, q2 x k]) [0..<w])
                        @ drop (3 * k * w + 3 * w) ?sk)"
    by (rule row_fill3 [OF lensk])
  also have "\<dots> = Inr (?R (Suc k) @ drop (3 * Suc k * w) s)"
    by (simp only: t d) simp
  finally show ?case .
qed

lemma to_8bit_eq:
  "to_8bit sx dither this img
   = Inr (concat (map (\<lambda>y. concat (map (\<lambda>x.
        [uchar_of_float (cr (quantized sx dither x y (img_pix img x y))),
         uchar_of_float (cg (quantized sx dither x y (img_pix img x y))),
         uchar_of_float (cb (quantized sx dither x y (img_pix img x y)))])
        [0..<img_width this])) [0..<img_height this]))"
proof -
  have "length (replicate (img_width this * img_height this * 3) (0::byte))
        = img_width this * img_height this * 3" by simp
  from rows_fill3 [OF this order_refl,
      of "\<lambda>x y. uchar_of_float (cr (quantized sx dither x y (img_pix img x y)))"
         "\<lambda>x y. uchar_of_float (cg (quantized sx dither x y (img_pix img x y)))"
         "\<lambda>x y. uchar_of_float (cb (quantized sx dither x y (img_pix img x y)))"]
  show ?thesis
    unfolding to_8bit_def parallel_for_def Let_def
    by (simp add: algebra_simps)
qed


lemma clamp_min_max: "min (max (v::real) 0) 255 = clamp v 0 255"
  by (auto simp: clamp_def min_def max_def)

lemma quantized_channels:
  "cr (quantized sx dither x y c) =
     clamp (save_round sx ((if dither
               then save_round sx (cr c + save_round sx (save_round sx (save_round sx
                      (dither_matrix256 sx (x mod 256 + y mod 256 * 256) / 65536) - 1 / 2) / 255))
               else cr c) * 255)) 0 255"
  "cg (quantized sx dither x y c) =
     clamp (save_round sx ((if dither
               then save_round sx (cg c + save_round sx (save_round sx (save_round sx
                      (dither_matrix256 sx (x mod 256 + y mod 256 * 256) / 65536) - 1 / 2) / 255))
               else cg c) * 255)) 0 255"
  "cb (quantized sx dither x y c) =
     clamp (save_round sx ((if dither
               then save_round sx (cb c + save_round sx (save_round sx (save_round sx
                      (dither_matrix256 sx (x mod 256 + y mod 256 * 256) / 65536) - 1 / 2) / 255))
               else cb c) * 255)) 0 255"
  by (simp_all add: quantized_def Let_def color_add_def color_scale_def color_max_def
      color_min_def clamp_min_max)

lemma tonemapped_identity: "tonemapped sx this hdrFormat 1 1 False = Inr this"
  by (simp add: tonemapped_def)

text \<open>
  The rounding decides the byte. With the table entry 64134 and the channel
  \<open>c = 67 / 32768\<close>, \<open>255 * (c + d)\<close> is 1 over the reals; in binary32 the sum \<open>c + d\<close> is a
  tie that goes to the even neighbour below, the product is \<open>16777215 / 16777216\<close>, and
  the byte is 0.
\<close>

lemma rounding_decides_byte:
  "uchar_of_float (cr (quantized boundary_dither True 0 0 (Color4 (67 / 32768) 0 0 1))) = 0 \<and>
   uchar_of_float (cr (quantized (boundary_dither\<lparr>save_round := \<lambda>v. v\<rparr>) True 0 0
     (Color4 (67 / 32768) 0 0 1))) = 1"
  by (simp add: quantized_channels boundary_dither_def flat_dither_def binary32_boundary
      clamp_def c_trunc_def uchar_of_float_def)

text \<open>
  C5 (as stated, refuted). With the table entry 128 the dither is \<open>d = - 1 / 512\<close>. For the
  red channel \<open>c = 5 / 1024\<close> the byte written is 0, the truncation of
  \<open>255 * (c + d) = 765 / 1024\<close>, while \<open>truncate (clamp (255 * c + d) 0 255)\<close> is the
  truncation of \<open>1273 / 1024\<close>, which is 1.
\<close>

theorem save_8bit_as_stated_counterexample:
  "save flat_dither png_target one_pixel 1 1 False True
     = (Inr True, Some (Byte_file ''png'' 1 1 [0, 127, 255])) \<and>
   cr (img_pix one_pixel 0 0) = 5 / 1024 \<and>
   (dither_matrix256 flat_dither (0 mod 256 + 0 mod 256 * 256) / 65536 - 1 / 2) / 255 = - 1 / 512 \<and>
   (word_of_int (c_trunc (clamp
      (255 * cr (img_pix one_pixel 0 0)
       + (dither_matrix256 flat_dither (0 mod 256 + 0 mod 256 * 256) / 65536 - 1 / 2) / 255)
      0 255)) :: byte) = 1"
  by (simp add: save_def to_8bit_eq quantized_channels uchar_of_float_def tonemapped_identity
      png_target_def one_pixel_def flat_dither_def binary32_fixed clamp_def c_trunc_def)

text \<open>
  C5. Saving to an 8-bit format writes three bytes for every pixel, row by row, and
  drops alpha. With dither the byte of a channel is
  \<open>truncate (clamp (255 * (c + d)) 0 255)\<close>, where \<open>c\<close> is the channel of the tone-mapped
  image and \<open>d = (table[x mod 256 + (y mod 256) * 256] / 65536 - 1 / 2) / 255\<close>: the dither
  is added before the scaling by 255. Without dither it is
  \<open>truncate (clamp (255 * c) 0 255)\<close>. The arithmetic is that of floats: the steps that
  give \<open>d\<close>, the sum and the product are each rounded to binary32.
\<close>

theorem save_8bit_quantization:
  assumes "save_extension env \<in> {''ppm'', ''png'', ''bmp'', ''tga'', ''jpg'', ''jpeg''}"
    and "tonemapped sx this False gain gamma sRGB = Inr img"
  shows "save sx env this gain gamma sRGB dither =
    (Inr (writer_ok env),
     Some (Byte_file (save_extension env) (img_width this) (img_height this)
       (concat (map (\<lambda>y. concat (map (\<lambda>x.
          let rnd = save_round sx;
              c = img_pix img x y;
              d = rnd (rnd (rnd (dither_matrix256 sx (x mod 256 + y mod 256 * 256) / 65536)
                         - 1 / 2) / 255);
              q = (\<lambda>v. word_of_int (c_trunc (clamp
                     (rnd ((if dither then rnd (v + d) else v) * 255)) 0 255)))
          in [q (cr c), q (cg c), q (cb c)])
          [0..<img_width this])) [0..<img_height this]))))"
proof -
  have e: "save_extension env \<noteq> ''hdr''" "save_extension env \<noteq> ''pfm''"
    "save_extension env \<noteq> ''exr''"
    using assms(1) by auto
  have l: "save_extension env = ''ppm'' \<or> save_extension env = ''png'' \<or>
           save_extension env = ''bmp'' \<or> save_extension env = ''tga'' \<or>
           save_extension env = ''jpg'' \<or> save_extension env = ''jpeg''"
    using assms(1) by simp
  show ?thesis
    unfolding save_def Let_def to_8bit_eq
    by (simp add: e l assms(2) quantized_channels uchar_of_float_def Let_def)
qed

theorem save_8bit_quantization_witness:
  "save_extension png_target \<in> {''ppm'', ''png'', ''bmp'', ''tga'', ''jpg'', ''jpeg''} \<and>
   tonemapped flat_dither one_pixel False 1 1 False = Inr one_pixel \<and>
   save flat_dither png_target one_pixel 1 1 False True
     = (Inr True, Some (Byte_file ''png'' 1 1 [0, 127, 255])) \<and>
   save flat_dither png_target one_pixel 1 1 False False
     = (Inr True, Some (Byte_file ''png'' 1 1 [1, 127, 255])) \<and>
   tonemapped flat_dither one_pixel False 2 1 False
     = Inr \<lparr>img_width = 1, img_height = 1,
            img_pix = \<lambda>_ _. Color4 (5 / 512) 1 4 (1 / 4)\<rparr> \<and>
   save flat_dither png_target one_pixel 2 1 False True
     = (Inr True, Some (Byte_file ''png'' 1 1 [1, 254, 255]))"
proof -
  have h: "save_extension png_target \<in> {''ppm'', ''png'', ''bmp'', ''tga'', ''jpg'', ''jpeg''}"
    by (simp add: png_target_def)
  have t: "tonemapped flat_dither one_pixel False 1 1 False = Inr one_pixel"
    by (rule tonemapped_identity)
  have g: "tonemapped flat_dither one_pixel False 2 1 False
     = Inr \<lparr>img_width = 1, img_height = 1,
            img_pix = \<lambda>_ _. Color4 (5 / 512) 1 4 (1 / 4)\<rparr>"
    by (simp add: tonemapped_def map_pixels_def color_mul_def one_pixel_def flat_dither_def
        binary32_fixed)
  have a: "save flat_dither png_target one_pixel 1 1 False True
     = (Inr True, Some (Byte_file ''png'' 1 1 [0, 127, 255])) \<and>
   save flat_dither png_target one_pixel 1 1 False False
     = (Inr True, Some (Byte_file ''png'' 1 1 [1, 127, 255]))"
    using save_8bit_quantization [OF h t, of True]
      save_8bit_quantization [OF h t, of False]
    by (simp add: png_target_def one_pixel_def flat_dither_def binary32_fixed clamp_def
        c_trunc_def)
  have b: "save flat_dither png_target one_pixel 2 1 False True
     = (Inr True, Some (Byte_file ''png'' 1 1 [1, 254, 255]))"
    using save_8bit_quantization [OF h g, of True]
    by (simp add: png_target_def one_pixel_def flat_dither_def binary32_fixed clamp_def
        c_trunc_def)
  from h t a g b show ?thesis by simp
qed


end
